theory Spec2Isabelle
  imports Main "HOL-Library.Word"
begin

unbundle bit_operations_syntax

section \<open>structraw: a reflection-driven binary struct codec\<close>

text \<open>
  A shallow embedding of the Go package \<open>structraw\<close> (plan builder and cache in
  \<open>serializer.go\<close>, field operations in the field file, \<open>struct_len.go\<close>).
  Go's \<open>(int, error)\<close> results are pairs \<open>(n, err)\<close> with \<open>err :: error option\<close>
  (\<open>None\<close> is \<open>nil\<close>); \<open>(ptr, error)\<close> results of the builders are sums;
  a panic is the outcome \<open>Panic msg\<close>.
\<close>

subsection \<open>Errors and outcomes\<close>

type_synonym byte = "8 word"

text \<open>
  The four sentinel errors of the package, an error owned by a sink or source
  (\<open>io.EOF\<close> is \<open>IOError ''EOF''\<close>), and \<open>fmt.Errorf\<close> with one \<open>%w\<close> operand:
  the format string and the wrapped error (the other operands only render text).
\<close>

datatype error =
    ErrTagFormat
  | ErrReadData
  | ErrInvalidType
  | ErrWriteDataLen
  | IOError string
  | Errorf string error

text \<open>\<open>errors.Is\<close>: the error or one it wraps is the target.\<close>

fun errors_Is :: "error \<Rightarrow> error \<Rightarrow> bool" where
  "errors_Is (Errorf m e) target = (Errorf m e = target \<or> errors_Is e target)"
| "errors_Is e target = (e = target)"

datatype 'a outcome = Return 'a | Panic string

subsection \<open>Types and values as reflection sees them\<close>

datatype Kind =
    Invalid | Bool | Int' | Int8 | Int16 | Int32 | Int64
  | Uint | Uint8 | Uint16 | Uint32 | Uint64 | Uintptr
  | Float32 | Float64 | Complex64 | Complex128
  | Array | Chan | Func | Interface | Map | Pointer | Slice | String | Struct
  | UnsafePointer

text \<open>
  A struct tag is kept as its parsed key/value pairs; \<open>Tag_Get\<close> is
  \<open>StructTag.Get\<close> (the first pair with that key, \<open>""\<close> when there is none).
  \<open>PkgPath\<close> is empty exactly for exported fields.
\<close>

datatype rtype =
    T_bool | T_int | T_int8 | T_int16 | T_int32 | T_int64
  | T_uint | T_uint8 | T_uint16 | T_uint32 | T_uint64 | T_uintptr
  | T_float32 | T_float64 | T_complex64 | T_complex128
  | T_string | T_unsafe_pointer | T_func | T_interface
  | T_array nat rtype | T_slice rtype | T_ptr rtype | T_chan rtype
  | T_map rtype rtype
  | T_struct "StructField list"
and StructField =
    StructField (Name: string) (PkgPath: string) (Type: rtype)
                (Tag: "(string \<times> string) list")

fun Kind_of :: "rtype \<Rightarrow> Kind" where
  "Kind_of T_bool = Bool"
| "Kind_of T_int = Int'"
| "Kind_of T_int8 = Int8"
| "Kind_of T_int16 = Int16"
| "Kind_of T_int32 = Int32"
| "Kind_of T_int64 = Int64"
| "Kind_of T_uint = Uint"
| "Kind_of T_uint8 = Uint8"
| "Kind_of T_uint16 = Uint16"
| "Kind_of T_uint32 = Uint32"
| "Kind_of T_uint64 = Uint64"
| "Kind_of T_uintptr = Uintptr"
| "Kind_of T_float32 = Float32"
| "Kind_of T_float64 = Float64"
| "Kind_of T_complex64 = Complex64"
| "Kind_of T_complex128 = Complex128"
| "Kind_of T_string = String"
| "Kind_of T_unsafe_pointer = UnsafePointer"
| "Kind_of T_func = Func"
| "Kind_of T_interface = Interface"
| "Kind_of (T_array n e) = Array"
| "Kind_of (T_slice e) = Slice"
| "Kind_of (T_ptr e) = Pointer"
| "Kind_of (T_chan e) = Chan"
| "Kind_of (T_map k e) = Map"
| "Kind_of (T_struct fs) = Struct"

definition Tag_Get :: "(string \<times> string) list \<Rightarrow> string \<Rightarrow> string" where
  "Tag_Get tag key = (case map_of tag key of None \<Rightarrow> [] | Some v \<Rightarrow> v)"

text \<open>
  The data of a value: an unsigned integer as \<open>v.Uint()\<close> reads it (zero-extended
  to 64 bits), the bytes of a byte array or byte slice, the elements of any other
  array or slice, the fields of a struct, a pointer (to a value, or nil), or a
  value of another kind, which the codec never inspects.
\<close>

datatype Value =
    VUint "64 word"
  | VBytes "byte list"
  | VSeq "Value list"
  | VStruct "Value list"
  | VPtr Value
  | VNil
  | VOther

text \<open>
  \<open>reflect.Value\<close>: the type, the data and the addressability flag. The zero
  Value (of kind \<open>Invalid\<close>) is \<open>None\<close> of \<open>RValue option\<close>.
\<close>

record RValue =
  vtype :: rtype
  vdata :: Value
  flagAddr :: bool

text \<open>An \<open>interface{}\<close> argument: nil, or a dynamic type with its value.\<close>

datatype Iface = Nil | Iface rtype Value

definition ValueOf :: "Iface \<Rightarrow> RValue option" where
  "ValueOf s = (case s of Nil \<Rightarrow> None
     | Iface t v \<Rightarrow> Some \<lparr>vtype = t, vdata = v, flagAddr = False\<rparr>)"

definition ValueKind :: "RValue option \<Rightarrow> Kind" where
  "ValueKind v = (case v of None \<Rightarrow> Invalid | Some rv \<Rightarrow> Kind_of (vtype rv))"

text \<open>
  \<open>reflect.Indirect\<close>: the pointee of a pointer (addressable), the zero Value
  for a nil pointer, and the value itself when it is not a pointer.
\<close>

definition Indirect :: "RValue option \<Rightarrow> RValue option" where
  "Indirect v = (case v of None \<Rightarrow> None
     | Some rv \<Rightarrow>
        (case vtype rv of
           T_ptr t \<Rightarrow>
             (case vdata rv of
                VPtr x \<Rightarrow> Some \<lparr>vtype = t, vdata = x, flagAddr = True\<rparr>
              | _ \<Rightarrow> None)
         | _ \<Rightarrow> Some rv))"

text \<open>
  \<open>value.FieldByIndex(field.Index)\<close> for the one-element index \<open>[i]\<close> that
  \<open>typ.Field(i)\<close> carries: the i-th field, which inherits addressability.
\<close>

definition FieldByIndex :: "RValue \<Rightarrow> nat \<Rightarrow> RValue outcome" where
  "FieldByIndex v i =
     (case vtype v of
        T_struct fs \<Rightarrow>
          (case vdata v of
             VStruct vs \<Rightarrow>
               if i < length fs \<and> i < length vs
               then Return \<lparr>vtype = Type (fs ! i), vdata = vs ! i, flagAddr = flagAddr v\<rparr>
               else Panic ''reflect: Field index out of range''
           | _ \<Rightarrow> Panic ''reflect: call of reflect.Value.Field on non-struct Value'')
      | _ \<Rightarrow> Panic ''reflect: call of reflect.Value.Field on non-struct Value'')"

text \<open>\<open>v.Uint()\<close> panics unless the kind is an unsigned integer kind.\<close>

definition Uint_of :: "RValue \<Rightarrow> 64 word outcome" where
  "Uint_of v =
     (if Kind_of (vtype v) \<in> {Uint, Uintptr, Uint8, Uint16, Uint32, Uint64}
      then (case vdata v of VUint u \<Rightarrow> Return u
              | _ \<Rightarrow> Panic ''reflect: call of reflect.Value.Uint on non-uint Value'')
      else Panic ''reflect: call of reflect.Value.Uint on non-uint Value'')"

text \<open>\<open>v.Len()\<close> of an array or slice.\<close>

definition Len :: "RValue \<Rightarrow> nat outcome" where
  "Len v =
     (if Kind_of (vtype v) \<in> {Array, Slice}
      then (case vdata v of VBytes bs \<Rightarrow> Return (length bs)
              | VSeq vs \<Rightarrow> Return (length vs)
              | _ \<Rightarrow> Panic ''reflect: call of reflect.Value.Len on non-sequence Value'')
      else Panic ''reflect: call of reflect.Value.Len on non-sequence Value'')"

text \<open>\<open>v.Bytes()\<close> of a byte slice.\<close>

definition Bytes :: "RValue \<Rightarrow> byte list outcome" where
  "Bytes v =
     (case vtype v of
        T_slice e \<Rightarrow>
          (case vdata v of
             VBytes bs \<Rightarrow>
               if Kind_of e = Uint8 then Return bs
               else Panic ''reflect.Value.Bytes of non-byte slice''
           | _ \<Rightarrow> Panic ''reflect.Value.Bytes of non-byte slice'')
      | _ \<Rightarrow> Panic ''reflect: call of reflect.Value.Bytes on non-slice Value'')"

text \<open>
  \<open>v.SetUint(x)\<close>: panics on an unaddressable value; stores \<open>x\<close> truncated to
  the width of the kind.
\<close>

definition SetUint :: "RValue \<Rightarrow> 64 word \<Rightarrow> Value outcome" where
  "SetUint v x =
     (if \<not> flagAddr v then Panic ''reflect: reflect.Value.SetUint using unaddressable value''
      else if Kind_of (vtype v) = Uint8 then Return (VUint (take_bit 8 x))
      else if Kind_of (vtype v) = Uint16 then Return (VUint (take_bit 16 x))
      else if Kind_of (vtype v) = Uint32 then Return (VUint (take_bit 32 x))
      else if Kind_of (vtype v) \<in> {Uint, Uintptr, Uint64} then Return (VUint x)
      else Panic ''reflect: call of reflect.Value.SetUint on non-uint Value'')"

text \<open>\<open>v.SetBytes(b)\<close> of a byte slice.\<close>

definition SetBytes :: "RValue \<Rightarrow> byte list \<Rightarrow> Value outcome" where
  "SetBytes v b =
     (if \<not> flagAddr v then Panic ''reflect: reflect.Value.SetBytes using unaddressable value''
      else (case vtype v of
              T_slice e \<Rightarrow>
                if Kind_of e = Uint8 then Return (VBytes b)
                else Panic ''reflect.Value.SetBytes of non-byte slice''
            | _ \<Rightarrow> Panic ''reflect: call of reflect.Value.SetBytes on non-slice Value''))"

text \<open>The built-in \<open>copy(dst, src)\<close>, as the new content of \<open>dst\<close>.\<close>

definition copy :: "byte list \<Rightarrow> byte list \<Rightarrow> byte list" where
  "copy dst src = take (length dst) src @ drop (length src) dst"

subsection \<open>encoding/binary\<close>

text \<open>
  \<open>binary.BigEndian\<close> and \<open>binary.LittleEndian\<close>; a nil \<open>binary.ByteOrder\<close>
  is \<open>None\<close>. \<open>le_bytes n v\<close> are the \<open>n\<close> low bytes of \<open>v\<close>, least significant
  first, and \<open>le_word\<close> reads such bytes back. The decoders return \<open>None\<close> where
  Go's bounds check on the buffer panics.
\<close>

datatype ByteOrder = BigEndian | LittleEndian

fun le_bytes :: "nat \<Rightarrow> 'a::len word \<Rightarrow> byte list" where
  "le_bytes 0 v = []"
| "le_bytes (Suc n) v = ucast v # le_bytes n (drop_bit 8 v)"

fun le_word :: "byte list \<Rightarrow> 'a::len word" where
  "le_word [] = 0"
| "le_word (b # bs) = ucast b OR push_bit 8 (le_word bs)"

definition put_bytes :: "ByteOrder \<Rightarrow> nat \<Rightarrow> 'a::len word \<Rightarrow> byte list" where
  "put_bytes order n v =
     (case order of LittleEndian \<Rightarrow> le_bytes n v | BigEndian \<Rightarrow> rev (le_bytes n v))"

definition get_word :: "ByteOrder \<Rightarrow> nat \<Rightarrow> byte list \<Rightarrow> ('a::len word) option" where
  "get_word order n b =
     (if length b < n then None
      else Some (case order of LittleEndian \<Rightarrow> le_word (take n b)
                             | BigEndian \<Rightarrow> le_word (rev (take n b))))"

definition PutUint16 :: "ByteOrder \<Rightarrow> 16 word \<Rightarrow> byte list" where
  "PutUint16 order v = put_bytes order 2 v"

definition PutUint32 :: "ByteOrder \<Rightarrow> 32 word \<Rightarrow> byte list" where
  "PutUint32 order v = put_bytes order 4 v"

definition PutUint64 :: "ByteOrder \<Rightarrow> 64 word \<Rightarrow> byte list" where
  "PutUint64 order v = put_bytes order 8 v"

definition Uint16_of :: "ByteOrder \<Rightarrow> byte list \<Rightarrow> 16 word option" where
  "Uint16_of order b = get_word order 2 b"

definition Uint32_of :: "ByteOrder \<Rightarrow> byte list \<Rightarrow> 32 word option" where
  "Uint32_of order b = get_word order 4 b"

definition Uint64_of :: "ByteOrder \<Rightarrow> byte list \<Rightarrow> 64 word option" where
  "Uint64_of order b = get_word order 8 b"

subsection \<open>io.Writer, io.Reader and bytes.Buffer\<close>

text \<open>
  A sink is a state with its \<open>Write\<close> method: \<open>Write w p\<close> returns \<open>(n, err)\<close>
  and the sink afterwards. A source is a state with its \<open>Read\<close> method:
  \<open>Read r k\<close>, for a buffer of \<open>k\<close> bytes, returns the bytes it stored at the
  front of the buffer (their number is Go's \<open>n\<close>), the error, and the source
  afterwards.
\<close>

record 'w Writer =
  w_state :: 'w
  w_write :: "'w \<Rightarrow> byte list \<Rightarrow> (nat \<times> error option) \<times> 'w"

record 'r Reader =
  r_state :: 'r
  r_read :: "'r \<Rightarrow> nat \<Rightarrow> (byte list \<times> error option) \<times> 'r"

definition Write :: "'w Writer \<Rightarrow> byte list \<Rightarrow> (nat \<times> error option) \<times> 'w Writer" where
  "Write w p = (case w_write w (w_state w) p of (res, s') \<Rightarrow> (res, w\<lparr>w_state := s'\<rparr>))"

definition Read :: "'r Reader \<Rightarrow> nat \<Rightarrow> (byte list \<times> error option) \<times> 'r Reader" where
  "Read r k = (case r_read r (r_state r) k of (res, s') \<Rightarrow> (res, r\<lparr>r_state := s'\<rparr>))"

text \<open>
  \<open>bytes.Buffer\<close> as a sink: \<open>Write\<close> appends all of \<open>p\<close> and returns
  \<open>(len(p), nil)\<close>.
\<close>

definition bytes_Buffer :: "byte list \<Rightarrow> (byte list) Writer" where
  "bytes_Buffer buf = \<lparr>w_state = buf, w_write = (\<lambda>s p. ((length p, None), s @ p))\<rparr>"

text \<open>
  \<open>bytes.NewBuffer(data)\<close> as a source: \<open>Read\<close> on an empty buffer returns
  \<open>(0, io.EOF)\<close>, or \<open>(0, nil)\<close> for an empty \<open>p\<close>; otherwise it hands out
  the next \<open>min(len(p), remaining)\<close> bytes with a nil error.
\<close>

definition bytes_NewBuffer :: "byte list \<Rightarrow> (byte list) Reader" where
  "bytes_NewBuffer buf =
     \<lparr>r_state = buf,
      r_read = (\<lambda>s k. if s = [] then (if k = 0 then (([], None), s)
                                          else (([], Some (IOError ''EOF'')), s))
                       else ((take k s, None), drop k s))\<rparr>"

subsection \<open>Field tags\<close>

text \<open>\<open>strings.Split(tag, ",")\<close>.\<close>

fun strings_Split :: "string \<Rightarrow> string list" where
  "strings_Split [] = [[]]"
| "strings_Split (c # cs) =
     (if c = CHR '','' then [] # strings_Split cs
      else (case strings_Split cs of
              [] \<Rightarrow> [[c]]
            | t # ts \<Rightarrow> (c # t) # ts))"

definition FieldTagName :: string where
  "FieldTagName = ''structraw''"

record fieldTag =
  endian :: "ByteOrder option"

record uintOptions =
  NeedEndian :: bool
  BitSize :: nat

definition parseUintOptions :: "Kind \<Rightarrow> uintOptions option" where
  "parseUintOptions kind =
     (if kind = Uint8 then Some \<lparr>NeedEndian = False, BitSize = 1\<rparr>
      else if kind = Uint16 then Some \<lparr>NeedEndian = True, BitSize = 2\<rparr>
      else if kind = Uint32 then Some \<lparr>NeedEndian = True, BitSize = 4\<rparr>
      else if kind = Uint64 then Some \<lparr>NeedEndian = True, BitSize = 8\<rparr>
      else None)"

text \<open>The loop of \<open>newFieldTag\<close> over the tokens, with \<open>t.endian\<close> as accumulator.\<close>

fun newFieldTag_loop :: "string list \<Rightarrow> ByteOrder option \<Rightarrow> error + ByteOrder option" where
  "newFieldTag_loop [] e = Inr e"
| "newFieldTag_loop (l # ls) e =
     (if l = [] then newFieldTag_loop ls e
      else if l = ''be'' \<or> l = ''le'' then
        (if e \<noteq> None then Inl (Errorf ''%w: Endian duplicate'' ErrTagFormat)
         else if l = ''be'' then newFieldTag_loop ls (Some BigEndian)
         else newFieldTag_loop ls (Some LittleEndian))
      else Inl (Errorf ''%w: field:%s tag: %s not support'' ErrTagFormat))"

definition newFieldTag :: "string \<Rightarrow> string \<Rightarrow> uintOptions option \<Rightarrow> error + fieldTag" where
  "newFieldTag fieldName tag uo =
     (case newFieldTag_loop (strings_Split tag) None of
        Inl err \<Rightarrow> Inl err
      | Inr e \<Rightarrow>
          (case uo of
             None \<Rightarrow> Inr \<lparr>endian = e\<rparr>
           | Some opts \<Rightarrow>
               if NeedEndian opts \<and> e = None
               then Inl (Errorf ''%w: Endian not found'' ErrTagFormat)
               else Inr \<lparr>endian = e\<rparr>))"

subsection \<open>Field operations\<close>

text \<open>
  The tail of \<open>putUint\<close>: \<open>b\<close> is \<open>b[:bitSize]\<close> after the switch has filled it.
\<close>

definition putUint_write ::
  "byte list \<Rightarrow> nat \<Rightarrow> 'w Writer \<Rightarrow> (nat \<times> error option) outcome \<times> 'w Writer"
where
  "putUint_write b bitSize w =
     (case Write w b of
        ((n, Some err), w') \<Rightarrow> (Return (0, Some (Errorf ''write data error:%w'' err)), w')
      | ((n, None), w') \<Rightarrow>
          if n \<noteq> bitSize
          then (Return (0, Some (Errorf ''%w:write data len[%d] not equal to bit size[%d]''
                                   ErrWriteDataLen)), w')
          else (Return (n, None), w'))"

definition putUint ::
  "64 word \<Rightarrow> ByteOrder option \<Rightarrow> nat \<Rightarrow> 'w Writer \<Rightarrow> (nat \<times> error option) outcome \<times> 'w Writer"
where
  "putUint ui order bitSize w =
     (if bitSize > 1 \<and> order = None then (Panic ''endianness bitSize is too large'', w)
      else if bitSize = 1 then putUint_write [ucast ui] bitSize w
      else if bitSize = 2 then
        (case order of None \<Rightarrow> (Panic ''nil pointer dereference'', w)
         | Some e \<Rightarrow> putUint_write (PutUint16 e (ucast ui)) bitSize w)
      else if bitSize = 4 then
        (case order of None \<Rightarrow> (Panic ''nil pointer dereference'', w)
         | Some e \<Rightarrow> putUint_write (PutUint32 e (ucast ui)) bitSize w)
      else if bitSize = 8 then
        (case order of None \<Rightarrow> (Panic ''nil pointer dereference'', w)
         | Some e \<Rightarrow> putUint_write (PutUint64 e ui) bitSize w)
      else (Panic ''invalid bitSize'', w))"

text \<open>
  The switch of \<open>getUint\<close> on the bytes \<open>b[:bitSize]\<close> that were read.
\<close>

definition getUint_decode ::
  "ByteOrder option \<Rightarrow> nat \<Rightarrow> byte list \<Rightarrow> (64 word \<times> nat \<times> error option) outcome"
where
  "getUint_decode order bitSize b =
     (if bitSize = 1 then
        (case b of [] \<Rightarrow> Panic ''index out of range''
         | b0 # _ \<Rightarrow> Return (ucast b0, bitSize, None))
      else if bitSize = 2 then
        (case order of None \<Rightarrow> Panic ''nil pointer dereference''
         | Some e \<Rightarrow> (case Uint16_of e b of None \<Rightarrow> Panic ''index out of range''
                       | Some u \<Rightarrow> Return (ucast u, bitSize, None)))
      else if bitSize = 4 then
        (case order of None \<Rightarrow> Panic ''nil pointer dereference''
         | Some e \<Rightarrow> (case Uint32_of e b of None \<Rightarrow> Panic ''index out of range''
                       | Some u \<Rightarrow> Return (ucast u, bitSize, None)))
      else if bitSize = 8 then
        (case order of None \<Rightarrow> Panic ''nil pointer dereference''
         | Some e \<Rightarrow> (case Uint64_of e b of None \<Rightarrow> Panic ''index out of range''
                       | Some u \<Rightarrow> Return (u, bitSize, None)))
      else Panic ''invalid bitSize'')"

definition getUint ::
  "ByteOrder option \<Rightarrow> nat \<Rightarrow> 'r Reader \<Rightarrow> (64 word \<times> nat \<times> error option) outcome \<times> 'r Reader"
where
  "getUint order bitSize r =
     (if bitSize > 1 \<and> order = None then (Panic ''endianness bitSize is too large'', r)
      else if bitSize > 8 then (Panic ''slice bounds out of range'', r)
      else
        (case Read r bitSize of
           ((b, Some err), r') \<Rightarrow> (Return (0, 0, Some (Errorf ''read data error:%w'' err)), r')
         | ((b, None), r') \<Rightarrow>
             if length b \<noteq> bitSize
             then (Return (0, 0, Some (Errorf ''%w:read bit size[%d] not equal to bit size[%d]''
                                         ErrReadData)), r')
             else (getUint_decode order bitSize b, r')))"

text \<open>
  \<open>valueByteArrayToByteSlice\<close>: \<open>value.Index(0)\<close> panics on an array of length 0,
  \<open>.Addr()\<close> panics on an unaddressable value; otherwise the result is the slice
  over the array's own storage.
\<close>

definition valueByteArrayToByteSlice :: "RValue \<Rightarrow> byte list outcome" where
  "valueByteArrayToByteSlice v =
     (case vtype v of
        T_array n e \<Rightarrow>
          (case vdata v of
             VBytes bs \<Rightarrow>
               if bs = [] then Panic ''reflect: array index out of range''
               else if \<not> flagAddr v then Panic ''reflect.Value.Addr of unaddressable value''
               else Return bs
           | _ \<Rightarrow> Panic ''reflect: call of reflect.Value.Index on non-array Value'')
      | _ \<Rightarrow> Panic ''reflect: call of reflect.Value.Index on non-array Value'')"

type_synonym 'w marshalFunc =
  "RValue \<Rightarrow> 'w Writer \<Rightarrow> (nat \<times> error option) outcome \<times> 'w Writer"

text \<open>
  An \<open>unmarshalFunc\<close> mutates the field it is given: the model returns the
  field's data afterwards (unchanged where the source did not assign).
\<close>

type_synonym 'r unmarshalFunc =
  "RValue \<Rightarrow> 'r Reader \<Rightarrow> (nat \<times> error option) outcome \<times> Value \<times> 'r Reader"

record 'w fieldMarshaler =
  fm_field :: StructField
  fm_tag :: fieldTag
  marshalFunc :: "'w marshalFunc"

record 'r fieldUnmarshaler =
  fu_field :: StructField
  fu_tag :: fieldTag
  unmarshalFunc :: "'r unmarshalFunc"

text \<open>The closure of \<open>newMarshalFunc\<close> for the unsigned integer kinds.\<close>

definition marshalUint :: "uintOptions option \<Rightarrow> fieldTag \<Rightarrow> 'w marshalFunc" where
  "marshalUint uo tag = (\<lambda>v w.
     (case Uint_of v of
        Panic m \<Rightarrow> (Panic m, w)
      | Return ui \<Rightarrow>
          (case uo of
             None \<Rightarrow> (Panic ''nil pointer dereference'', w)
           | Some opts \<Rightarrow> putUint ui (endian tag) (BitSize opts) w)))"

text \<open>The closure of \<open>newMarshalFunc\<close> for byte arrays and byte slices.\<close>

definition marshalBytes :: "StructField \<Rightarrow> 'w marshalFunc" where
  "marshalBytes field = (\<lambda>v w.
     (case (if Kind_of (Type field) = Array then valueByteArrayToByteSlice v else Bytes v) of
        Panic m \<Rightarrow> (Panic m, w)
      | Return p \<Rightarrow>
          (case Write w p of
             ((n, Some err), w') \<Rightarrow> (Return (0, Some err), w')
           | ((n, None), w') \<Rightarrow>
               (case Len v of
                  Panic m \<Rightarrow> (Panic m, w')
                | Return l \<Rightarrow>
                    if n \<noteq> l
                    then (Return (0, Some (Errorf ''%w:write data len[%d] not equal to data len[%d]''
                                             ErrWriteDataLen)), w')
                    else (Return (n, None), w')))))"

text \<open>
  \<open>newMarshalFunc\<close> switches on \<open>field.Type.Kind()\<close>; the kind is read off the
  type's constructor, which also provides \<open>field.Type.Elem()\<close> in the
  \<open>Array\<close>/\<open>Slice\<close> case.
\<close>

definition newMarshalFunc ::
  "StructField \<Rightarrow> uintOptions option \<Rightarrow> fieldTag \<Rightarrow> error + 'w marshalFunc"
where
  "newMarshalFunc field uo tag =
     (case Type field of
        T_uint8 \<Rightarrow> Inr (marshalUint uo tag)
      | T_uint16 \<Rightarrow> Inr (marshalUint uo tag)
      | T_uint32 \<Rightarrow> Inr (marshalUint uo tag)
      | T_uint64 \<Rightarrow> Inr (marshalUint uo tag)
      | T_array n e \<Rightarrow>
          if Kind_of e \<noteq> Uint8
          then Inl (Errorf ''%w: field:%s kind:%s not support'' ErrInvalidType)
          else Inr (marshalBytes field)
      | T_slice e \<Rightarrow>
          if Kind_of e \<noteq> Uint8
          then Inl (Errorf ''%w: field:%s kind:%s not support'' ErrInvalidType)
          else Inr (marshalBytes field)
      | _ \<Rightarrow> Inl (Errorf ''%w: field:%s kind:%s not support'' ErrInvalidType))"

definition newFieldMarshaler :: "StructField \<Rightarrow> error + 'w fieldMarshaler" where
  "newFieldMarshaler field =
     (let uo = parseUintOptions (Kind_of (Type field)) in
      case newFieldTag (Name field) (Tag_Get (Tag field) FieldTagName) uo of
        Inl err \<Rightarrow> Inl err
      | Inr tag \<Rightarrow>
          (case newMarshalFunc field uo tag of
             Inl err \<Rightarrow> Inl err
           | Inr f \<Rightarrow> Inr \<lparr>fm_field = field, fm_tag = tag, marshalFunc = f\<rparr>))"

text \<open>The closure of \<open>newUnmarshalFunc\<close> for the unsigned integer kinds.\<close>

definition unmarshalUint :: "uintOptions option \<Rightarrow> fieldTag \<Rightarrow> 'r unmarshalFunc" where
  "unmarshalUint uo tag = (\<lambda>v r.
     (case uo of
        None \<Rightarrow> (Panic ''nil pointer dereference'', vdata v, r)
      | Some opts \<Rightarrow>
          (case getUint (endian tag) (BitSize opts) r of
             (Panic m, r') \<Rightarrow> (Panic m, vdata v, r')
           | (Return (u, n, Some err), r') \<Rightarrow> (Return (0, Some err), vdata v, r')
           | (Return (u, n, None), r') \<Rightarrow>
               (case SetUint v u of
                  Panic m \<Rightarrow> (Panic m, vdata v, r')
                | Return d \<Rightarrow> (Return (n, None), d, r')))))"

text \<open>The closure of \<open>newUnmarshalFunc\<close> for byte arrays and byte slices.\<close>

definition unmarshalBytes :: "StructField \<Rightarrow> 'r unmarshalFunc" where
  "unmarshalBytes field = (\<lambda>v r.
     (case Len v of
        Panic m \<Rightarrow> (Panic m, vdata v, r)
      | Return l \<Rightarrow>
          (case Read r l of
             ((b, Some err), r') \<Rightarrow> (Return (0, Some err), vdata v, r')
           | ((b, None), r') \<Rightarrow>
               if length b \<noteq> l then (Return (0, Some ErrReadData), vdata v, r')
               else if Kind_of (Type field) = Array then
                 (case valueByteArrayToByteSlice v of
                    Panic m \<Rightarrow> (Panic m, vdata v, r')
                  | Return dst \<Rightarrow> (Return (length (copy dst b), None), VBytes (copy dst b), r'))
               else
                 (case SetBytes v b of
                    Panic m \<Rightarrow> (Panic m, vdata v, r')
                  | Return d \<Rightarrow> (Return (length b, None), d, r')))))"

definition newUnmarshalFunc ::
  "StructField \<Rightarrow> uintOptions option \<Rightarrow> fieldTag \<Rightarrow> error + 'r unmarshalFunc"
where
  "newUnmarshalFunc field uo tag =
     (case Type field of
        T_uint8 \<Rightarrow> Inr (unmarshalUint uo tag)
      | T_uint16 \<Rightarrow> Inr (unmarshalUint uo tag)
      | T_uint32 \<Rightarrow> Inr (unmarshalUint uo tag)
      | T_uint64 \<Rightarrow> Inr (unmarshalUint uo tag)
      | T_array n e \<Rightarrow>
          if Kind_of e \<noteq> Uint8
          then Inl (Errorf ''%w: field:%s kind:%s not support'' ErrInvalidType)
          else Inr (unmarshalBytes field)
      | T_slice e \<Rightarrow>
          if Kind_of e \<noteq> Uint8
          then Inl (Errorf ''%w: field:%s kind:%s not support'' ErrInvalidType)
          else Inr (unmarshalBytes field)
      | _ \<Rightarrow> Inl (Errorf ''%w: field:%s kind:%s not support'' ErrInvalidType))"

definition newFieldUnmarshaler :: "StructField \<Rightarrow> error + 'r fieldUnmarshaler" where
  "newFieldUnmarshaler field =
     (let uo = parseUintOptions (Kind_of (Type field)) in
      case newFieldTag (Name field) (Tag_Get (Tag field) FieldTagName) uo of
        Inl err \<Rightarrow> Inl err
      | Inr tag \<Rightarrow>
          (case newUnmarshalFunc field uo tag of
             Inl err \<Rightarrow> Inl err
           | Inr f \<Rightarrow> Inr \<lparr>fu_field = field, fu_tag = tag, unmarshalFunc = f\<rparr>))"

subsection \<open>Plans, their builders and their execution\<close>

text \<open>
  \<open>m_fieldIndex\<close> holds, for each planned field, the position \<open>i\<close> of the
  one-element index \<open>field.Index = [i]\<close>.
\<close>

record 'w marshaler =
  m_fieldIndex :: "nat list"
  m_fieldMarshaler :: "'w fieldMarshaler list"

record 'r unmarshaler =
  u_fieldIndex :: "nat list"
  u_fieldUnmarshaler :: "'r fieldUnmarshaler list"

text \<open>
  The loop of \<open>marshaler.marshal\<close> over \<open>mc.fieldIndex\<close>: \<open>i\<close> is the loop
  counter, \<open>n\<close> the running total.
\<close>

fun marshal_loop ::
  "'w fieldMarshaler list \<Rightarrow> nat \<Rightarrow> nat list \<Rightarrow> RValue \<Rightarrow> nat \<Rightarrow> 'w Writer
     \<Rightarrow> (nat \<times> error option) outcome \<times> 'w Writer"
where
  "marshal_loop fms i [] value n w = (Return (n, None), w)"
| "marshal_loop fms i (index # rest) value n w =
     (if length fms \<le> i then (Panic ''index out of range'', w)
      else
        (case FieldByIndex value index of
           Panic m \<Rightarrow> (Panic m, w)
         | Return fv \<Rightarrow>
             (case marshalFunc (fms ! i) fv w of
                (Panic m, w') \<Rightarrow> (Panic m, w')
              | (Return (num, Some err), w') \<Rightarrow> (Return (0, Some err), w')
              | (Return (num, None), w') \<Rightarrow> marshal_loop fms (Suc i) rest value (n + num) w')))"

definition marshaler_marshal ::
  "'w marshaler \<Rightarrow> RValue \<Rightarrow> 'w Writer \<Rightarrow> (nat \<times> error option) outcome \<times> 'w Writer"
where
  "marshaler_marshal mc value w =
     marshal_loop (m_fieldMarshaler mc) 0 (m_fieldIndex mc) value 0 w"

text \<open>
  The loop of \<open>newMarshaler\<close>: \<open>field\<close> is \<open>typ.Field(i)\<close>, fields with a
  non-empty \<open>PkgPath\<close> (unexported) are skipped.
\<close>

fun newMarshaler_loop ::
  "StructField list \<Rightarrow> nat \<Rightarrow> 'w marshaler \<Rightarrow> error + 'w marshaler"
where
  "newMarshaler_loop [] i mc = Inr mc"
| "newMarshaler_loop (field # rest) i mc =
     (if PkgPath field \<noteq> [] then newMarshaler_loop rest (Suc i) mc
      else
        (case newFieldMarshaler field of
           Inl err \<Rightarrow> Inl err
         | Inr fm \<Rightarrow>
             newMarshaler_loop rest (Suc i)
               (mc\<lparr>m_fieldIndex := m_fieldIndex mc @ [i],
                   m_fieldMarshaler := m_fieldMarshaler mc @ [fm]\<rparr>)))"

definition newMarshaler :: "rtype \<Rightarrow> (error + 'w marshaler) outcome" where
  "newMarshaler t =
     (case t of
        T_struct fs \<Rightarrow>
          Return (newMarshaler_loop fs 0 \<lparr>m_fieldIndex = [], m_fieldMarshaler = []\<rparr>)
      | _ \<Rightarrow> Panic ''reflect: NumField of non-struct type'')"

text \<open>
  The loop of \<open>unmarshaler.unmarshal\<close>. The record is mutated field by field:
  \<open>set_field\<close> writes the data an operation left in its field back into the
  record.
\<close>

definition set_field :: "RValue \<Rightarrow> nat \<Rightarrow> Value \<Rightarrow> RValue" where
  "set_field value i d =
     (case vdata value of
        VStruct vs \<Rightarrow> value\<lparr>vdata := VStruct (vs[i := d])\<rparr>
      | _ \<Rightarrow> value)"

fun unmarshal_loop ::
  "'r fieldUnmarshaler list \<Rightarrow> nat \<Rightarrow> nat list \<Rightarrow> RValue \<Rightarrow> nat \<Rightarrow> 'r Reader
     \<Rightarrow> (nat \<times> error option) outcome \<times> RValue \<times> 'r Reader"
where
  "unmarshal_loop fus i [] value n r = (Return (n, None), value, r)"
| "unmarshal_loop fus i (index # rest) value n r =
     (if length fus \<le> i then (Panic ''index out of range'', value, r)
      else
        (case FieldByIndex value index of
           Panic m \<Rightarrow> (Panic m, value, r)
         | Return fv \<Rightarrow>
             (case unmarshalFunc (fus ! i) fv r of
                (Panic m, d, r') \<Rightarrow> (Panic m, set_field value index d, r')
              | (Return (num, Some err), d, r') \<Rightarrow>
                  (Return (0, Some err), set_field value index d, r')
              | (Return (num, None), d, r') \<Rightarrow>
                  unmarshal_loop fus (Suc i) rest (set_field value index d) (n + num) r')))"

definition unmarshaler_unmarshal ::
  "'r unmarshaler \<Rightarrow> RValue \<Rightarrow> 'r Reader \<Rightarrow> (nat \<times> error option) outcome \<times> RValue \<times> 'r Reader"
where
  "unmarshaler_unmarshal uc value r =
     unmarshal_loop (u_fieldUnmarshaler uc) 0 (u_fieldIndex uc) value 0 r"

fun newUnmarshaler_loop ::
  "StructField list \<Rightarrow> nat \<Rightarrow> 'r unmarshaler \<Rightarrow> error + 'r unmarshaler"
where
  "newUnmarshaler_loop [] i uc = Inr uc"
| "newUnmarshaler_loop (field # rest) i uc =
     (if PkgPath field \<noteq> [] then newUnmarshaler_loop rest (Suc i) uc
      else
        (case newFieldUnmarshaler field of
           Inl err \<Rightarrow> Inl err
         | Inr fu \<Rightarrow>
             newUnmarshaler_loop rest (Suc i)
               (uc\<lparr>u_fieldIndex := u_fieldIndex uc @ [i],
                   u_fieldUnmarshaler := u_fieldUnmarshaler uc @ [fu]\<rparr>)))"

definition newUnmarshaler :: "rtype \<Rightarrow> (error + 'r unmarshaler) outcome" where
  "newUnmarshaler t =
     (case t of
        T_struct fs \<Rightarrow>
          Return (newUnmarshaler_loop fs 0 \<lparr>u_fieldIndex = [], u_fieldUnmarshaler = []\<rparr>)
      | _ \<Rightarrow> Panic ''reflect: NumField of non-struct type'')"

subsection \<open>The plan cache\<close>

text \<open>
  \<open>SafeMap\<close>: each method runs under the map's lock and is one atomic step on
  the map.
\<close>

type_synonym ('k, 'v) SafeMap = "'k \<rightharpoonup> 'v"

definition NewSafeMap :: "('k, 'v) SafeMap" where
  "NewSafeMap = Map.empty"

definition Load :: "('k, 'v) SafeMap \<Rightarrow> 'k \<Rightarrow> 'v option" where
  "Load sm key = sm key"

definition Store :: "('k, 'v) SafeMap \<Rightarrow> 'k \<Rightarrow> 'v \<Rightarrow> ('k, 'v) SafeMap" where
  "Store sm key val = sm(key \<mapsto> val)"

definition LoadOrStore ::
  "('k, 'v) SafeMap \<Rightarrow> 'k \<Rightarrow> 'v \<Rightarrow> ('v \<times> bool) \<times> ('k, 'v) SafeMap"
where
  "LoadOrStore sm key val =
     (case sm key of
        Some existing \<Rightarrow> ((existing, True), sm)
      | None \<Rightarrow> ((val, False), sm(key \<mapsto> val)))"

text \<open>
  \<open>getMarshaler\<close> takes the lock twice, in \<open>Load\<close> and in \<open>LoadOrStore\<close>, and
  builds the candidate plan in between with no lock held. \<open>others\<close> is what
  other goroutines did to the cache between the two steps; the sequential
  \<open>getMarshaler\<close> is the run with no interference.
\<close>

definition getMarshaler_conc ::
  "(rtype, 'w marshaler) SafeMap \<Rightarrow>
   ((rtype, 'w marshaler) SafeMap \<Rightarrow> (rtype, 'w marshaler) SafeMap) \<Rightarrow> rtype \<Rightarrow>
   (error + 'w marshaler) outcome \<times> (rtype, 'w marshaler) SafeMap"
where
  "getMarshaler_conc marshalCache others t =
     (case Load marshalCache t of
        Some c \<Rightarrow> (Return (Inr c), marshalCache)
      | None \<Rightarrow>
          (case newMarshaler t of
             Panic msg \<Rightarrow> (Panic msg, marshalCache)
           | Return (Inl err) \<Rightarrow> (Return (Inl err), marshalCache)
           | Return (Inr m) \<Rightarrow>
               (case LoadOrStore (others marshalCache) t m of
                  ((c, loaded), cache') \<Rightarrow> (Return (Inr c), cache'))))"

definition getMarshaler ::
  "(rtype, 'w marshaler) SafeMap \<Rightarrow> rtype \<Rightarrow>
   (error + 'w marshaler) outcome \<times> (rtype, 'w marshaler) SafeMap"
where
  "getMarshaler marshalCache t = getMarshaler_conc marshalCache (\<lambda>c. c) t"

definition getUnmarshaler_conc ::
  "(rtype, 'r unmarshaler) SafeMap \<Rightarrow>
   ((rtype, 'r unmarshaler) SafeMap \<Rightarrow> (rtype, 'r unmarshaler) SafeMap) \<Rightarrow> rtype \<Rightarrow>
   (error + 'r unmarshaler) outcome \<times> (rtype, 'r unmarshaler) SafeMap"
where
  "getUnmarshaler_conc unmarshalCache others t =
     (case Load unmarshalCache t of
        Some c \<Rightarrow> (Return (Inr c), unmarshalCache)
      | None \<Rightarrow>
          (case newUnmarshaler t of
             Panic msg \<Rightarrow> (Panic msg, unmarshalCache)
           | Return (Inl err) \<Rightarrow> (Return (Inl err), unmarshalCache)
           | Return (Inr u) \<Rightarrow>
               (case LoadOrStore (others unmarshalCache) t u of
                  ((c, loaded), cache') \<Rightarrow> (Return (Inr c), cache'))))"

definition getUnmarshaler ::
  "(rtype, 'r unmarshaler) SafeMap \<Rightarrow> rtype \<Rightarrow>
   (error + 'r unmarshaler) outcome \<times> (rtype, 'r unmarshaler) SafeMap"
where
  "getUnmarshaler unmarshalCache t = getUnmarshaler_conc unmarshalCache (\<lambda>c. c) t"

text \<open>
  What other goroutines can do to a cache: any number of \<open>LoadOrStore\<close> steps
  (the caches are never written through \<open>Store\<close>).
\<close>

inductive cache_steps :: "('k, 'v) SafeMap \<Rightarrow> ('k, 'v) SafeMap \<Rightarrow> bool" where
  cache_steps_refl: "cache_steps c c"
| cache_steps_step: "cache_steps c c' \<Longrightarrow> cache_steps c (snd (LoadOrStore c' key val))"

subsection \<open>The entry points\<close>

definition marshal ::
  "(rtype, 'w marshaler) SafeMap \<Rightarrow> RValue \<Rightarrow> 'w Writer \<Rightarrow>
   (nat \<times> error option) outcome \<times> (rtype, 'w marshaler) SafeMap \<times> 'w Writer"
where
  "marshal marshalCache value w =
     (case getMarshaler marshalCache (vtype value) of
        (Panic msg, cache') \<Rightarrow> (Panic msg, cache', w)
      | (Return (Inl err), cache') \<Rightarrow> (Return (0, Some err), cache', w)
      | (Return (Inr m), cache') \<Rightarrow>
          (case marshaler_marshal m value w of (res, w') \<Rightarrow> (res, cache', w')))"

definition MarshalToWriter ::
  "(rtype, 'w marshaler) SafeMap \<Rightarrow> Iface \<Rightarrow> 'w Writer \<Rightarrow>
   (nat \<times> error option) outcome \<times> (rtype, 'w marshaler) SafeMap \<times> 'w Writer"
where
  "MarshalToWriter marshalCache s w =
     (let value = (if ValueKind (ValueOf s) = Pointer then Indirect (ValueOf s)
                   else ValueOf s)
      in if ValueKind value \<noteq> Struct then (Return (0, Some ErrInvalidType), marshalCache, w)
         else (case value of
                 None \<Rightarrow> (Return (0, Some ErrInvalidType), marshalCache, w)
               | Some rv \<Rightarrow> marshal marshalCache rv w))"

text \<open>\<open>Marshal\<close> returns \<open>(nil, err)\<close> or \<open>(bb.Bytes(), nil)\<close>.\<close>

definition Marshal ::
  "(rtype, (byte list) marshaler) SafeMap \<Rightarrow> Iface \<Rightarrow>
   (error + byte list) outcome \<times> (rtype, (byte list) marshaler) SafeMap"
where
  "Marshal marshalCache s =
     (case MarshalToWriter marshalCache s (bytes_Buffer []) of
        (Panic msg, cache', bb) \<Rightarrow> (Panic msg, cache')
      | (Return (n, Some err), cache', bb) \<Rightarrow> (Return (Inl err), cache')
      | (Return (n, None), cache', bb) \<Rightarrow> (Return (Inr (w_state bb)), cache'))"

definition unmarshal ::
  "(rtype, 'r unmarshaler) SafeMap \<Rightarrow> 'r Reader \<Rightarrow> RValue \<Rightarrow>
   (nat \<times> error option) outcome \<times> RValue \<times> (rtype, 'r unmarshaler) SafeMap \<times> 'r Reader"
where
  "unmarshal unmarshalCache r value =
     (case getUnmarshaler unmarshalCache (vtype value) of
        (Panic msg, cache') \<Rightarrow> (Panic msg, value, cache', r)
      | (Return (Inl err), cache') \<Rightarrow> (Return (0, Some err), value, cache', r)
      | (Return (Inr u), cache') \<Rightarrow>
          (case unmarshaler_unmarshal u value r of
             (res, value', r') \<Rightarrow> (res, value', cache', r')))"

text \<open>
  \<open>UnmarshalFromReader\<close> mutates the record behind the pointer \<open>s\<close>; the model
  returns \<open>s\<close> with the record as the call left it.
\<close>

definition UnmarshalFromReader ::
  "(rtype, 'r unmarshaler) SafeMap \<Rightarrow> 'r Reader \<Rightarrow> Iface \<Rightarrow>
   (nat \<times> error option) outcome \<times> Iface \<times> (rtype, 'r unmarshaler) SafeMap \<times> 'r Reader"
where
  "UnmarshalFromReader unmarshalCache r s =
     (if ValueKind (ValueOf s) \<noteq> Pointer
      then (Return (0, Some ErrInvalidType), s, unmarshalCache, r)
      else
        (let value = Indirect (ValueOf s)
         in if ValueKind value \<noteq> Struct
            then (Return (0, Some ErrInvalidType), s, unmarshalCache, r)
            else (case value of
                    None \<Rightarrow> (Return (0, Some ErrInvalidType), s, unmarshalCache, r)
                  | Some rv \<Rightarrow>
                      (case unmarshal unmarshalCache r rv of
                         (res, rv', cache', r') \<Rightarrow>
                           (res, Iface (T_ptr (vtype rv')) (VPtr (vdata rv')), cache', r')))))"

definition Unmarshal ::
  "(rtype, (byte list) unmarshaler) SafeMap \<Rightarrow> byte list \<Rightarrow> Iface \<Rightarrow>
   (error option) outcome \<times> Iface \<times> (rtype, (byte list) unmarshaler) SafeMap"
where
  "Unmarshal unmarshalCache bs s =
     (case UnmarshalFromReader unmarshalCache (bytes_NewBuffer bs) s of
        (Panic msg, s', cache', bb) \<Rightarrow> (Panic msg, s', cache')
      | (Return (n, err), s', cache', bb) \<Rightarrow> (Return err, s', cache'))"

subsection \<open>StructLen\<close>

definition fieldLen :: "StructField \<Rightarrow> RValue \<Rightarrow> (nat \<times> error option) outcome" where
  "fieldLen field value =
     (if Kind_of (Type field) = Uint8 then Return (1, None)
      else if Kind_of (Type field) = Uint16 then Return (2, None)
      else if Kind_of (Type field) = Uint32 then Return (4, None)
      else if Kind_of (Type field) = Uint64 then Return (8, None)
      else if Kind_of (Type field) = Array \<or> Kind_of (Type field) = Slice then
        (case Len value of Panic m \<Rightarrow> Panic m | Return l \<Rightarrow> Return (l, None))
      else Return (0, Some (Errorf ''%w: field:%s type kind:%s not support'' ErrInvalidType)))"

text \<open>
  The loop of \<open>structLen\<close>: \<open>field\<close> is \<open>value.Type().Field(i)\<close>, \<open>fl\<close> the
  running total.
\<close>

fun structLen_loop ::
  "StructField list \<Rightarrow> nat \<Rightarrow> RValue \<Rightarrow> nat \<Rightarrow> (nat \<times> error option) outcome"
where
  "structLen_loop [] i value fl = Return (fl, None)"
| "structLen_loop (field # rest) i value fl =
     (if PkgPath field \<noteq> [] then structLen_loop rest (Suc i) value fl
      else
        (case FieldByIndex value i of
           Panic m \<Rightarrow> Panic m
         | Return fv \<Rightarrow>
             (case fieldLen field fv of
                Panic m \<Rightarrow> Panic m
              | Return (l, Some err) \<Rightarrow> Return (0, Some err)
              | Return (l, None) \<Rightarrow> structLen_loop rest (Suc i) value (fl + l))))"

definition structLen :: "RValue \<Rightarrow> (nat \<times> error option) outcome" where
  "structLen value =
     (case vtype value of
        T_struct fs \<Rightarrow> structLen_loop fs 0 value 0
      | _ \<Rightarrow> Panic ''reflect: NumField of non-struct type'')"

definition StructLen :: "Iface \<Rightarrow> (nat \<times> error option) outcome" where
  "StructLen s =
     (let value = (if ValueKind (ValueOf s) = Pointer then Indirect (ValueOf s)
                   else ValueOf s)
      in if ValueKind value \<noteq> Struct then Return (0, Some ErrInvalidType)
         else (case value of
                 None \<Rightarrow> Return (0, Some ErrInvalidType)
               | Some rv \<Rightarrow> structLen rv))"

subsection \<open>Example sinks, sources and record types\<close>

text \<open>A sink that accepts at most \<open>k\<close> bytes of each write and reports no error.\<close>

definition short_Writer :: "nat \<Rightarrow> (byte list) Writer" where
  "short_Writer k =
     \<lparr>w_state = [], w_write = (\<lambda>s p. ((min k (length p), None), s @ take k p))\<rparr>"

text \<open>A sink with room for \<open>cap\<close> bytes: a write that does not fit fails.\<close>

definition full_Writer :: "nat \<Rightarrow> (byte list) Writer" where
  "full_Writer cap =
     \<lparr>w_state = [],
      w_write = (\<lambda>s p. if length s + length p \<le> cap then ((length p, None), s @ p)
                        else ((0, Some (IOError ''no space left on device'')), s))\<rparr>"

text \<open>A source that hands out at most \<open>k\<close> bytes per read and reports no error.\<close>

definition short_Reader :: "nat \<Rightarrow> byte list \<Rightarrow> (byte list) Reader" where
  "short_Reader k buf =
     \<lparr>r_state = buf, r_read = (\<lambda>s n. ((take (min k n) s, None), drop (min k n) s))\<rparr>"

text \<open>A source whose every read fails.\<close>

definition broken_Reader :: "(byte list) Reader" where
  "broken_Reader =
     \<lparr>r_state = [], r_read = (\<lambda>s n. (([], Some (IOError ''connection reset'')), s))\<rparr>"

text \<open>\<open>struct { A uint8; B uint16 `structraw:"le"` }\<close>\<close>

definition struct_AB :: rtype where
  "struct_AB =
     T_struct [StructField ''A'' [] T_uint8 [],
               StructField ''B'' [] T_uint16 [(''structraw'', ''le'')]]"

text \<open>\<open>struct { A []uint32 }\<close>\<close>

definition struct_U32s :: rtype where
  "struct_U32s = T_struct [StructField ''A'' [] (T_slice T_uint32) []]"

text \<open>Example fields, field operations and plans.\<close>

definition field_B :: StructField where
  "field_B = StructField ''B'' [] T_uint16 [(''structraw'', ''le'')]"

definition field_U32 :: StructField where
  "field_U32 = StructField ''N'' [] T_uint32 []"

definition fm_B :: "(byte list) fieldMarshaler" where
  "fm_B = \<lparr>fm_field = field_B, fm_tag = \<lparr>endian = Some LittleEndian\<rparr>,
          marshalFunc = marshalUint (Some \<lparr>NeedEndian = True, BitSize = 2\<rparr>)
                          \<lparr>endian = Some LittleEndian\<rparr>\<rparr>"

definition fu_B :: "(byte list) fieldUnmarshaler" where
  "fu_B = \<lparr>fu_field = field_B, fu_tag = \<lparr>endian = Some LittleEndian\<rparr>,
          unmarshalFunc = unmarshalUint (Some \<lparr>NeedEndian = True, BitSize = 2\<rparr>)
                          \<lparr>endian = Some LittleEndian\<rparr>\<rparr>"

definition plan_empty :: "(byte list) marshaler" where
  "plan_empty = \<lparr>m_fieldIndex = [], m_fieldMarshaler = []\<rparr>"
definition plan_other :: "(byte list) marshaler" where
  "plan_other = \<lparr>m_fieldIndex = [0], m_fieldMarshaler = []\<rparr>"

definition field_A_le :: StructField where
  "field_A_le = StructField ''A'' [] T_uint8 [(''structraw'', ''le'')]"

subsection \<open>Notions the properties are stated with\<close>

text \<open>
  The byte-order tokens of an annotation, and whether it has a non-empty token
  that is neither \<open>be\<close> nor \<open>le\<close>.
\<close>

definition order_tokens :: "string \<Rightarrow> string list" where
  "order_tokens tag = filter (\<lambda>l. l = ''be'' \<or> l = ''le'') (strings_Split tag)"

definition bad_token :: "string \<Rightarrow> bool" where
  "bad_token tag = (\<exists>l \<in> set (strings_Split tag). l \<noteq> [] \<and> l \<noteq> ''be'' \<and> l \<noteq> ''le'')"

definition uint_type :: "rtype \<Rightarrow> bool" where
  "uint_type t \<longleftrightarrow> t \<in> {T_uint8, T_uint16, T_uint32, T_uint64}"

text \<open>
  The wire format of one field as the specification words it: one raw byte
  for \<open>U8\<close>; 2, 4 or 8 bytes in the resolved byte order for \<open>U16\<close>, \<open>U32\<close>,
  \<open>U64\<close>; the bytes as stored for a byte array or byte slice. \<open>None\<close> where
  the kind is unsupported, the byte order is missing or the data is not of the
  type.
\<close>

definition wire_bytes :: "rtype \<Rightarrow> ByteOrder option \<Rightarrow> Value \<Rightarrow> byte list option" where
  "wire_bytes t order d =
     (case d of
        VUint u \<Rightarrow>
          (case t of
             T_uint8 \<Rightarrow> Some [ucast u]
           | T_uint16 \<Rightarrow> map_option (\<lambda>e. PutUint16 e (ucast u)) order
           | T_uint32 \<Rightarrow> map_option (\<lambda>e. PutUint32 e (ucast u)) order
           | T_uint64 \<Rightarrow> map_option (\<lambda>e. PutUint64 e u) order
           | _ \<Rightarrow> None)
      | VBytes bs \<Rightarrow>
          (case t of
             T_array n el \<Rightarrow> if Kind_of el = Uint8 then Some bs else None
           | T_slice el \<Rightarrow> if Kind_of el = Uint8 then Some bs else None
           | _ \<Rightarrow> None)
      | _ \<Rightarrow> None)"

section \<open>Properties\<close>

subsection \<open>Byte counts on error\<close>

lemma marshal_loop_err_zero:
  "marshal_loop fms i idx rv n w = (Return (k, Some e), w') \<Longrightarrow> k = 0"
  by (induction idx arbitrary: i n w)
     (auto split: if_splits outcome.splits prod.splits option.splits)

lemma unmarshal_loop_err_zero:
  "unmarshal_loop fus i idx rv n r = (Return (k, Some e), rv', r') \<Longrightarrow> k = 0"
  by (induction idx arbitrary: i n r rv)
     (auto split: if_splits outcome.splits prod.splits option.splits)

lemma MarshalToWriter_err_zero:
  "fst (MarshalToWriter c s w) = Return (k, Some e) \<Longrightarrow> k = 0"
  by (auto simp: MarshalToWriter_def marshal_def marshaler_marshal_def Let_def
           dest: marshal_loop_err_zero
           split: if_splits outcome.splits prod.splits option.splits sum.splits)

lemma UnmarshalFromReader_err_zero:
  "fst (UnmarshalFromReader c r s) = Return (k, Some e) \<Longrightarrow> k = 0"
  by (auto simp: UnmarshalFromReader_def unmarshal_def unmarshaler_unmarshal_def Let_def
           dest: unmarshal_loop_err_zero
           split: if_splits outcome.splits prod.splits option.splits sum.splits)

text \<open>
  Claim C10. Whenever \<open>MarshalToWriter\<close> or \<open>UnmarshalFromReader\<close> returns a
  non-nil error, the byte count it returns is 0, whatever the cache, the
  argument and the sink or source are: the total accumulated over the fields
  that succeeded is dropped at the first field error.
\<close>

theorem C10_error_count_is_zero:
  "(fst (MarshalToWriter mc s w) = Return (n, Some e) \<longrightarrow> n = 0) \<and>
   (fst (UnmarshalFromReader uc r s') = Return (n', Some e') \<longrightarrow> n' = 0)"
  using MarshalToWriter_err_zero UnmarshalFromReader_err_zero by blast

text \<open>
  At a sink with room for one byte, the record \<open>{A: 1, B: 0x0203}\<close> fails at
  \<open>B\<close>: the count is 0 although the byte of \<open>A\<close> is in the sink. At a source
  of two bytes, decoding fails at \<open>B\<close>: the count is 0 although \<open>A\<close> was set.
\<close>

theorem C10_error_count_is_zero_witness:
  "fst (MarshalToWriter Map.empty (Iface struct_AB (VStruct [VUint 1, VUint 0x0203]))
          (full_Writer 1))
     = Return (0, Some (Errorf ''write data error:%w'' (IOError ''no space left on device''))) \<and>
   w_state (snd (snd (MarshalToWriter Map.empty
          (Iface struct_AB (VStruct [VUint 1, VUint 0x0203])) (full_Writer 1)))) = [1] \<and>
   fst (UnmarshalFromReader Map.empty (bytes_NewBuffer [7, 8])
          (Iface (T_ptr struct_AB) (VPtr (VStruct [VUint 0, VUint 0]))))
     = Return (0, Some (Errorf ''%w:read bit size[%d] not equal to bit size[%d]'' ErrReadData)) \<and>
   fst (snd (UnmarshalFromReader Map.empty (bytes_NewBuffer [7, 8])
          (Iface (T_ptr struct_AB) (VPtr (VStruct [VUint 0, VUint 0])))))
     = Iface (T_ptr struct_AB) (VPtr (VStruct [VUint 7, VUint 0]))"
proof -
  let ?m = "MarshalToWriter Map.empty (Iface struct_AB (VStruct [VUint 1, VUint 0x0203]))
              (full_Writer 1)"
  let ?u = "UnmarshalFromReader Map.empty (bytes_NewBuffer [7, 8])
              (Iface (T_ptr struct_AB) (VPtr (VStruct [VUint 0, VUint 0])))"
  have m: "map_outcome snd (fst ?m)
     = Return (Some (Errorf ''write data error:%w'' (IOError ''no space left on device'')))"
    by code_simp
  have u: "map_outcome snd (fst ?u)
     = Return (Some (Errorf ''%w:read bit size[%d] not equal to bit size[%d]'' ErrReadData))"
    by code_simp
  have st: "w_state (snd (snd ?m)) = [1]"
    by code_simp
  have rec: "fst (snd ?u) = Iface (T_ptr struct_AB) (VPtr (VStruct [VUint 7, VUint 0]))"
    by code_simp
  from m obtain n where n: "fst ?m
     = Return (n, Some (Errorf ''write data error:%w'' (IOError ''no space left on device'')))"
    by (cases "fst ?m") auto
  from u obtain n' where n': "fst ?u
     = Return (n', Some (Errorf ''%w:read bit size[%d] not equal to bit size[%d]'' ErrReadData))"
    by (cases "fst ?u") auto
  from n n' C10_error_count_is_zero have "n = 0" and "n' = 0"
    by blast+
  with n n' st rec show ?thesis
    by simp
qed

subsection \<open>The plan cache\<close>

lemma LoadOrStore_keeps: "c k = Some p \<Longrightarrow> snd (LoadOrStore c k' v) k = Some p"
  by (auto simp: LoadOrStore_def split: option.splits)

lemma cache_steps_keeps: "cache_steps c c' \<Longrightarrow> c k = Some p \<Longrightarrow> c' k = Some p"
  by (induction rule: cache_steps.induct) (auto simp: LoadOrStore_keeps)

lemma LoadOrStore_returns_entry:
  "LoadOrStore c k v = ((p, b), c') \<Longrightarrow> c' k = Some p"
  by (auto simp: LoadOrStore_def split: option.splits)

lemma getMarshaler_conc_returns_entry:
  "getMarshaler_conc c others t = (Return (Inr m), c') \<Longrightarrow> c' t = Some m"
  by (auto simp: getMarshaler_conc_def Load_def dest: LoadOrStore_returns_entry
           split: option.splits outcome.splits sum.splits prod.splits)

lemma getUnmarshaler_conc_returns_entry:
  "getUnmarshaler_conc c others t = (Return (Inr m), c') \<Longrightarrow> c' t = Some m"
  by (auto simp: getUnmarshaler_conc_def Load_def dest: LoadOrStore_returns_entry
           split: option.splits outcome.splits sum.splits prod.splits)

lemma getMarshaler_conc_cache:
  "snd (getMarshaler_conc mc others t) = mc \<or>
   (\<exists>m. snd (getMarshaler_conc mc others t) = snd (LoadOrStore (others mc) t m))"
  by (auto simp: getMarshaler_conc_def split: option.splits outcome.splits sum.splits prod.splits)
     (metis snd_conv)

lemma getUnmarshaler_conc_cache:
  "snd (getUnmarshaler_conc uc others t) = uc \<or>
   (\<exists>m. snd (getUnmarshaler_conc uc others t) = snd (LoadOrStore (others uc) t m))"
  by (auto simp: getUnmarshaler_conc_def split: option.splits outcome.splits sum.splits prod.splits)
     (metis snd_conv)

lemma getMarshaler_conc_steps:
  "cache_steps mc (others mc) \<Longrightarrow> cache_steps mc (snd (getMarshaler_conc mc others t))"
  using getMarshaler_conc_cache [of mc others t]
  by (auto simp: cache_steps_refl cache_steps_step)

lemma getUnmarshaler_conc_steps:
  "cache_steps uc (others uc) \<Longrightarrow> cache_steps uc (snd (getUnmarshaler_conc uc others t))"
  using getUnmarshaler_conc_cache [of uc others t]
  by (auto simp: cache_steps_refl cache_steps_step)

lemma LoadOrStore_hit: "c k = Some p \<Longrightarrow> LoadOrStore c k v = ((p, True), c)"
  by (simp add: LoadOrStore_def)

lemma LoadOrStore_miss: "c k = None \<Longrightarrow> LoadOrStore c k v = ((v, False), c(k \<mapsto> v))"
  by (simp add: LoadOrStore_def)

lemma getMarshaler_hit: "mc t = Some pm \<Longrightarrow> getMarshaler mc t = (Return (Inr pm), mc)"
  by (simp add: getMarshaler_def getMarshaler_conc_def Load_def)

lemma getUnmarshaler_hit: "uc t = Some pu \<Longrightarrow> getUnmarshaler uc t = (Return (Inr pu), uc)"
  by (simp add: getUnmarshaler_def getUnmarshaler_conc_def Load_def)

lemma getMarshaler_conc_discards:
  "mc t = None \<Longrightarrow> newMarshaler t = Return (Inr (cand :: 'w marshaler)) \<Longrightarrow>
   others mc t = Some (pm :: 'w marshaler) \<Longrightarrow>
   getMarshaler_conc mc others t = (Return (Inr pm), others mc)"
  by (simp add: getMarshaler_conc_def Load_def LoadOrStore_hit)

lemma getUnmarshaler_conc_discards:
  "uc t = None \<Longrightarrow> newUnmarshaler t = Return (Inr (cand :: 'r unmarshaler)) \<Longrightarrow>
   others uc t = Some (pu :: 'r unmarshaler) \<Longrightarrow>
   getUnmarshaler_conc uc others t = (Return (Inr pu), others uc)"
  by (simp add: getUnmarshaler_conc_def Load_def LoadOrStore_hit)

text \<open>
  Claim C3. At most one plan is ever observably associated with a type.
  \<open>LoadOrStore\<close> is store-if-absent: on an existing entry it returns that
  entry and leaves the map as it is. An entry, once in the cache, stays under
  every further step of any goroutine. A lookup-or-build on a cache that holds
  a plan for the type returns that plan. A call that missed, built a candidate
  and finds a plan published in the meantime returns the published plan and
  drops its candidate. Whatever plan a call returns is the plan the cache
  holds for the type afterwards.
\<close>

theorem C3_first_published_plan_wins:
  "(c k = Some p \<longrightarrow> LoadOrStore c k v = ((p, True), c)) \<and>
   (c k = None \<longrightarrow> LoadOrStore c k v = ((v, False), c(k \<mapsto> v))) \<and>
   (cache_steps c c' \<and> c k = Some p \<longrightarrow> c' k = Some p) \<and>
   (mc t = Some pm \<longrightarrow> getMarshaler mc t = (Return (Inr pm), mc)) \<and>
   (uc t = Some pu \<longrightarrow> getUnmarshaler uc t = (Return (Inr pu), uc)) \<and>
   (mc t = None \<and> newMarshaler t = Return (Inr (cand :: 'w marshaler)) \<and>
    mothers mc t = Some (pm :: 'w marshaler)
      \<longrightarrow> getMarshaler_conc mc mothers t = (Return (Inr pm), mothers mc)) \<and>
   (uc t = None \<and> newUnmarshaler t = Return (Inr (ucand :: 'r unmarshaler)) \<and>
    uothers uc t = Some (pu :: 'r unmarshaler)
      \<longrightarrow> getUnmarshaler_conc uc uothers t = (Return (Inr pu), uothers uc)) \<and>
   (getMarshaler_conc mc mothers t = (Return (Inr rm), mc') \<longrightarrow> mc' t = Some rm) \<and>
   (getUnmarshaler_conc uc uothers t = (Return (Inr ru), uc') \<longrightarrow> uc' t = Some ru) \<and>
   (cache_steps mc (mothers mc) \<longrightarrow> cache_steps mc (snd (getMarshaler_conc mc mothers t))) \<and>
   (cache_steps uc (uothers uc) \<longrightarrow> cache_steps uc (snd (getUnmarshaler_conc uc uothers t)))"
  using LoadOrStore_hit [of c k p v] LoadOrStore_miss [of c k v] cache_steps_keeps [of c c' k p]
    getMarshaler_hit [of mc t pm] getUnmarshaler_hit [of uc t pu]
    getMarshaler_conc_discards [of mc t cand mothers pm]
    getUnmarshaler_conc_discards [of uc t ucand uothers pu]
    getMarshaler_conc_returns_entry [of mc mothers t rm mc']
    getUnmarshaler_conc_returns_entry [of uc uothers t ru uc']
    getMarshaler_conc_steps [of mc mothers t] getUnmarshaler_conc_steps [of uc uothers t]
  by blast

theorem C3_first_published_plan_wins_witness:
  "LoadOrStore [T_struct [] \<mapsto> plan_other] (T_struct []) plan_empty
     = ((plan_other, True), [T_struct [] \<mapsto> plan_other]) \<and>
   getMarshaler [T_struct [] \<mapsto> plan_other] (T_struct [])
     = (Return (Inr plan_other), [T_struct [] \<mapsto> plan_other]) \<and>
   newMarshaler (T_struct []) = Return (Inr plan_empty) \<and>
   getMarshaler_conc Map.empty (\<lambda>c. c(T_struct [] \<mapsto> plan_other)) (T_struct [])
     = (Return (Inr plan_other), [T_struct [] \<mapsto> plan_other])"
proof (intro conjI)
  let ?t = "T_struct []"
  let ?c = "[?t \<mapsto> plan_other]"
  let ?e = "Map.empty :: (rtype, (byte list) marshaler) SafeMap"
  have h1: "?c ?t = Some plan_other" by simp
  show "LoadOrStore ?c ?t plan_empty = ((plan_other, True), ?c)"
    by (rule C3_first_published_plan_wins [THEN conjunct1, THEN mp]) (rule h1)
  show "getMarshaler ?c ?t = (Return (Inr plan_other), ?c)"
    by (rule C3_first_published_plan_wins
          [THEN conjunct2, THEN conjunct2, THEN conjunct2, THEN conjunct1, THEN mp])
       (rule h1)
  show h3: "newMarshaler ?t = Return (Inr plan_empty)"
    by (simp add: newMarshaler_def plan_empty_def)
  have "getMarshaler_conc ?e (\<lambda>c. c(?t \<mapsto> plan_other)) ?t
          = (Return (Inr plan_other), (\<lambda>c. c(?t \<mapsto> plan_other)) ?e)"
    by (rule C3_first_published_plan_wins
          [THEN conjunct2, THEN conjunct2, THEN conjunct2, THEN conjunct2, THEN conjunct2,
           THEN conjunct1, THEN mp])
       (simp add: h3)
  then show "getMarshaler_conc ?e (\<lambda>c. c(?t \<mapsto> plan_other)) ?t
          = (Return (Inr plan_other), ?c)"
    by simp
qed

subsection \<open>Byte-order resolution\<close>


lemma newFieldTag_loop_fails:
  "(\<exists>err. newFieldTag_loop ls e = Inl err) \<longleftrightarrow>
     (\<exists>l \<in> set ls. l \<noteq> [] \<and> l \<noteq> ''be'' \<and> l \<noteq> ''le'') \<or>
     2 \<le> length (filter (\<lambda>l. l = ''be'' \<or> l = ''le'') ls) + (if e = None then 0 else 1)"
  by (induction ls arbitrary: e) auto

lemma newFieldTag_loop_err:
  "newFieldTag_loop ls e = Inl err \<Longrightarrow> errors_Is err ErrTagFormat"
  by (induction ls arbitrary: e) (auto split: if_splits)

lemma newFieldTag_loop_ok:
  "newFieldTag_loop ls e = Inr e' \<Longrightarrow>
     (case filter (\<lambda>l. l = ''be'' \<or> l = ''le'') ls of
        [] \<Rightarrow> e' = e
      | l # rest \<Rightarrow> e = None \<and> rest = [] \<and>
                    e' = Some (if l = ''be'' then BigEndian else LittleEndian))"
proof (induction ls arbitrary: e)
  case Nil
  then show ?case by simp
next
  case (Cons l ls)
  show ?case
  proof (cases "l = ''be'' \<or> l = ''le''")
    case False
    with Cons.prems have "newFieldTag_loop ls e = Inr e'"
      by (auto split: if_splits)
    from Cons.IH [OF this] False show ?thesis by simp
  next
    case True
    with Cons.prems have e: "e = None"
      and rest: "newFieldTag_loop ls (Some (if l = ''be'' then BigEndian else LittleEndian)) = Inr e'"
      by (auto split: if_splits)
    from Cons.IH [OF rest] True e show ?thesis
      by (auto split: list.splits)
  qed
qed

lemma newFieldTag_err:
  "newFieldTag name tag uo = Inl err \<Longrightarrow> errors_Is err ErrTagFormat"
  by (auto simp: newFieldTag_def dest: newFieldTag_loop_err split: sum.splits option.splits if_splits)

lemma needs_order: "(\<exists>opts. parseUintOptions k = Some opts \<and> NeedEndian opts) \<longleftrightarrow> k \<in> {Uint16, Uint32, Uint64}"
  by (auto simp: parseUintOptions_def)

lemma newFieldTag_fails_iff:
  "(\<exists>err. newFieldTag name tag (parseUintOptions k) = Inl err) \<longleftrightarrow>
     bad_token tag \<or> 2 \<le> length (order_tokens tag) \<or>
     (k \<in> {Uint16, Uint32, Uint64} \<and> order_tokens tag = [])"
proof (cases "newFieldTag_loop (strings_Split tag) None")
  case (Inl err)
  with newFieldTag_loop_fails [of "strings_Split tag" None]
  show ?thesis
    by (auto simp: newFieldTag_def bad_token_def order_tokens_def)
next
  case (Inr e)
  with newFieldTag_loop_fails [of "strings_Split tag" None]
  have nf: "\<not> bad_token tag" "\<not> 2 \<le> length (order_tokens tag)"
    by (auto simp: bad_token_def order_tokens_def)
  from Inr newFieldTag_loop_ok [of "strings_Split tag" None e]
  have e: "e = None \<longleftrightarrow> order_tokens tag = []"
    by (auto simp: order_tokens_def split: list.splits)
  show ?thesis using Inr nf e needs_order [of k]
    by (auto simp: newFieldTag_def split: option.splits)
qed

subsection \<open>Field operations\<close>

lemma errors_Is_refl [simp]: "errors_Is e e"
  by (cases e) auto

lemma newFieldTag_endian:
  "newFieldTag name tag (Some opts) = Inr t \<Longrightarrow> NeedEndian opts \<Longrightarrow> endian t \<noteq> None"
  by (auto simp: newFieldTag_def split: sum.splits if_splits)

lemma parseUintOptions_Some:
  "parseUintOptions k = Some opts \<Longrightarrow>
     k \<in> {Uint8, Uint16, Uint32, Uint64} \<and> BitSize opts \<in> {1, 2, 4, 8} \<and>
     (1 < BitSize opts \<longrightarrow> NeedEndian opts)"
  by (auto simp: parseUintOptions_def split: if_splits)

lemma parseUintOptions_None:
  "parseUintOptions k = None \<Longrightarrow> k \<notin> {Uint8, Uint16, Uint32, Uint64}"
  by (auto simp: parseUintOptions_def split: if_splits)

lemma Kind_of_uint:
  "Kind_of t = Uint8 \<longleftrightarrow> t = T_uint8"
  "Kind_of t = Uint16 \<longleftrightarrow> t = T_uint16"
  "Kind_of t = Uint32 \<longleftrightarrow> t = T_uint32"
  "Kind_of t = Uint64 \<longleftrightarrow> t = T_uint64"
  by (cases t; simp)+

lemma Kind_of_seq:
  "Kind_of t = Array \<longleftrightarrow> (\<exists>n e. t = T_array n e)"
  "Kind_of t = Slice \<longleftrightarrow> (\<exists>e. t = T_slice e)"
  "Kind_of t = Struct \<longleftrightarrow> (\<exists>fs. t = T_struct fs)"
  "Kind_of t = Pointer \<longleftrightarrow> (\<exists>e. t = T_ptr e)"
  by (cases t; simp)+

lemma newFieldMarshaler_Inr_iff:
  "newFieldMarshaler f = Inr fm \<longleftrightarrow>
     (\<exists>tag mf. newFieldTag (Name f) (Tag_Get (Tag f) FieldTagName)
                  (parseUintOptions (Kind_of (Type f))) = Inr tag \<and>
               newMarshalFunc f (parseUintOptions (Kind_of (Type f))) tag = Inr mf \<and>
               fm = \<lparr>fm_field = f, fm_tag = tag, marshalFunc = mf\<rparr>)"
  by (auto simp: newFieldMarshaler_def Let_def split: sum.splits)

lemma newMarshalFunc_Inr:
  "newMarshalFunc f uo tag = Inr mf \<Longrightarrow>
     (Type f \<in> {T_uint8, T_uint16, T_uint32, T_uint64} \<and> mf = marshalUint uo tag) \<or>
     (((\<exists>n e. Type f = T_array n e \<and> Kind_of e = Uint8) \<or>
       (\<exists>e. Type f = T_slice e \<and> Kind_of e = Uint8)) \<and> mf = marshalBytes f)"
  by (cases "Type f") (auto simp: newMarshalFunc_def split: if_splits)

text \<open>The shape of every field marshaler that is built.\<close>

lemma newFieldMarshaler_Inr:
  assumes "newFieldMarshaler f = Inr fm"
  shows "(\<exists>opts. parseUintOptions (Kind_of (Type f)) = Some opts \<and>
            BitSize opts \<in> {1, 2, 4, 8} \<and>
            (1 < BitSize opts \<longrightarrow> endian (fm_tag fm) \<noteq> None) \<and>
            marshalFunc fm = marshalUint (Some opts) (fm_tag fm)) \<or>
         (parseUintOptions (Kind_of (Type f)) = None \<and>
          ((\<exists>n e. Type f = T_array n e \<and> Kind_of e = Uint8) \<or>
           (\<exists>e. Type f = T_slice e \<and> Kind_of e = Uint8)) \<and>
          marshalFunc fm = marshalBytes f)"
proof -
  from assms obtain tag mf where
    tag: "newFieldTag (Name f) (Tag_Get (Tag f) FieldTagName)
            (parseUintOptions (Kind_of (Type f))) = Inr tag"
    and mf: "newMarshalFunc f (parseUintOptions (Kind_of (Type f))) tag = Inr mf"
    and fm: "fm = \<lparr>fm_field = f, fm_tag = tag, marshalFunc = mf\<rparr>"
    unfolding newFieldMarshaler_Inr_iff by blast
  show ?thesis
  proof (cases "parseUintOptions (Kind_of (Type f))")
    case None
    from parseUintOptions_None [OF this]
    have "Type f \<notin> {T_uint8, T_uint16, T_uint32, T_uint64}"
      by (auto simp: Kind_of_uint)
    with newMarshalFunc_Inr [OF mf] None fm show ?thesis by auto
  next
    case (Some opts)
    from parseUintOptions_Some [OF this]
    have k: "Type f \<in> {T_uint8, T_uint16, T_uint32, T_uint64}"
      and b: "BitSize opts \<in> {1, 2, 4, 8}" and n: "1 < BitSize opts \<longrightarrow> NeedEndian opts"
      by (auto simp: Kind_of_uint)
    from newMarshalFunc_Inr [OF mf] k Some have "mf = marshalUint (Some opts) tag"
      by auto
    with Some b n newFieldTag_endian [of "Name f" _ opts tag] tag fm show ?thesis
      by auto
  qed
qed

lemma putUint_write_returns: "\<exists>res. fst (putUint_write b k w) = Return res"
  by (auto simp: putUint_write_def split: prod.splits option.splits)

lemma putUint_returns:
  "bitSize \<in> {1, 2, 4, 8} \<Longrightarrow> (1 < bitSize \<longrightarrow> order \<noteq> None) \<Longrightarrow>
     \<exists>res. fst (putUint ui order bitSize w) = Return res"
  using putUint_write_returns
  by (auto simp: putUint_def)

lemma newFieldUnmarshaler_Inr_iff:
  "newFieldUnmarshaler f = Inr fu \<longleftrightarrow>
     (\<exists>tag uf. newFieldTag (Name f) (Tag_Get (Tag f) FieldTagName)
                  (parseUintOptions (Kind_of (Type f))) = Inr tag \<and>
               newUnmarshalFunc f (parseUintOptions (Kind_of (Type f))) tag = Inr uf \<and>
               fu = \<lparr>fu_field = f, fu_tag = tag, unmarshalFunc = uf\<rparr>)"
  by (auto simp: newFieldUnmarshaler_def Let_def split: sum.splits)

lemma newUnmarshalFunc_Inr:
  "newUnmarshalFunc f uo tag = Inr uf \<Longrightarrow>
     (Type f \<in> {T_uint8, T_uint16, T_uint32, T_uint64} \<and> uf = unmarshalUint uo tag) \<or>
     (((\<exists>n e. Type f = T_array n e \<and> Kind_of e = Uint8) \<or>
       (\<exists>e. Type f = T_slice e \<and> Kind_of e = Uint8)) \<and> uf = unmarshalBytes f)"
  by (cases "Type f") (auto simp: newUnmarshalFunc_def split: if_splits)

lemma newFieldUnmarshaler_Inr:
  assumes "newFieldUnmarshaler f = Inr fu"
  shows "(\<exists>opts. parseUintOptions (Kind_of (Type f)) = Some opts \<and>
            BitSize opts \<in> {1, 2, 4, 8} \<and>
            (1 < BitSize opts \<longrightarrow> endian (fu_tag fu) \<noteq> None) \<and>
            unmarshalFunc fu = unmarshalUint (Some opts) (fu_tag fu)) \<or>
         (parseUintOptions (Kind_of (Type f)) = None \<and>
          ((\<exists>n e. Type f = T_array n e \<and> Kind_of e = Uint8) \<or>
           (\<exists>e. Type f = T_slice e \<and> Kind_of e = Uint8)) \<and>
          unmarshalFunc fu = unmarshalBytes f)"
proof -
  from assms obtain tag uf where
    tag: "newFieldTag (Name f) (Tag_Get (Tag f) FieldTagName)
            (parseUintOptions (Kind_of (Type f))) = Inr tag"
    and uf: "newUnmarshalFunc f (parseUintOptions (Kind_of (Type f))) tag = Inr uf"
    and fu: "fu = \<lparr>fu_field = f, fu_tag = tag, unmarshalFunc = uf\<rparr>"
    unfolding newFieldUnmarshaler_Inr_iff by blast
  show ?thesis
  proof (cases "parseUintOptions (Kind_of (Type f))")
    case None
    from parseUintOptions_None [OF this]
    have "Type f \<notin> {T_uint8, T_uint16, T_uint32, T_uint64}"
      by (auto simp: Kind_of_uint)
    with newUnmarshalFunc_Inr [OF uf] None fu show ?thesis by auto
  next
    case (Some opts)
    from parseUintOptions_Some [OF this]
    have k: "Type f \<in> {T_uint8, T_uint16, T_uint32, T_uint64}"
      and b: "BitSize opts \<in> {1, 2, 4, 8}" and n: "1 < BitSize opts \<longrightarrow> NeedEndian opts"
      by (auto simp: Kind_of_uint)
    from newUnmarshalFunc_Inr [OF uf] k Some have "uf = unmarshalUint (Some opts) tag"
      by auto
    with Some b n newFieldTag_endian [of "Name f" _ opts tag] tag fu show ?thesis
      by auto
  qed
qed

lemma get_word_Some: "length b = n \<Longrightarrow> \<exists>u. get_word order n b = Some u"
  by (simp add: get_word_def)

lemma getUint_decode_returns:
  "bitSize \<in> {1, 2, 4, 8} \<Longrightarrow> (1 < bitSize \<longrightarrow> order \<noteq> None) \<Longrightarrow> length b = bitSize \<Longrightarrow>
     \<exists>u. getUint_decode order bitSize b = Return (u, bitSize, None)"
  by (cases b)
     (auto simp: getUint_decode_def Uint16_of_def Uint32_of_def Uint64_of_def get_word_def)

lemma getUint_returns:
  "bitSize \<in> {1, 2, 4, 8} \<Longrightarrow> (1 < bitSize \<longrightarrow> order \<noteq> None) \<Longrightarrow>
     \<exists>res. fst (getUint order bitSize r) = Return res"
  using getUint_decode_returns [of bitSize order]
  by (auto simp: getUint_def split: prod.splits option.splits) fastforce+

lemma length_le_bytes [simp]: "length (le_bytes n v) = n"
  by (induction n arbitrary: v) auto

lemma length_put_bytes [simp]: "length (put_bytes e n v) = n"
  by (cases e) (auto simp: put_bytes_def)

lemma parseUintOptions_simps [simp]:
  "parseUintOptions Uint8 = Some \<lparr>NeedEndian = False, BitSize = 1\<rparr>"
  "parseUintOptions Uint16 = Some \<lparr>NeedEndian = True, BitSize = 2\<rparr>"
  "parseUintOptions Uint32 = Some \<lparr>NeedEndian = True, BitSize = 4\<rparr>"
  "parseUintOptions Uint64 = Some \<lparr>NeedEndian = True, BitSize = 8\<rparr>"
  "parseUintOptions Array = None"
  "parseUintOptions Slice = None"
  by (simp_all add: parseUintOptions_def)


lemma wire_bytes_uint:
  "uint_type t \<Longrightarrow> wire_bytes t order d = Some p \<Longrightarrow> \<exists>u. d = VUint u"
  by (cases d) (auto simp: wire_bytes_def uint_type_def)

lemma wire_bytes_seq:
  "(\<exists>n e. t = T_array n e) \<or> (\<exists>e. t = T_slice e) \<Longrightarrow> wire_bytes t order d = Some p \<Longrightarrow>
     d = VBytes p"
  by (cases d) (auto simp: wire_bytes_def split: if_splits)

lemma marshalUint_single_write:
  assumes t: "uint_type (vtype v)"
    and o: "parseUintOptions (Kind_of (vtype v)) = Some opts"
    and e: "1 < BitSize opts \<longrightarrow> endian tag \<noteq> None"
    and p: "wire_bytes (vtype v) (endian tag) (vdata v) = Some p"
  shows "marshalUint (Some opts) tag v w = putUint_write p (BitSize opts) w \<and> length p = BitSize opts"
proof -
  from wire_bytes_uint [OF t p] obtain u where u: "vdata v = VUint u" by blast
  from t have "vtype v = T_uint8 \<or> vtype v = T_uint16 \<or> vtype v = T_uint32 \<or> vtype v = T_uint64"
    by (simp add: uint_type_def)
  then show ?thesis
  proof (elim disjE)
    assume "vtype v = T_uint8"
    with o e p u show ?thesis
      by (auto simp: marshalUint_def Uint_of_def wire_bytes_def putUint_def)
  next
    assume "vtype v = T_uint16"
    with o e p u show ?thesis
      by (auto simp: marshalUint_def Uint_of_def wire_bytes_def putUint_def PutUint16_def)
  next
    assume "vtype v = T_uint32"
    with o e p u show ?thesis
      by (auto simp: marshalUint_def Uint_of_def wire_bytes_def putUint_def PutUint32_def)
  next
    assume "vtype v = T_uint64"
    with o e p u show ?thesis
      by (auto simp: marshalUint_def Uint_of_def wire_bytes_def putUint_def PutUint64_def)
  qed
qed

lemma marshalBytes_single_write:
  assumes t: "(\<exists>n e. vtype v = T_array n e \<and> Kind_of e = Uint8) \<or>
              (\<exists>e. vtype v = T_slice e \<and> Kind_of e = Uint8)"
    and f: "Type f = vtype v"
    and p: "wire_bytes (vtype v) order (vdata v) = Some p"
    and a: "Kind_of (vtype v) = Array \<longrightarrow> flagAddr v \<and> p \<noteq> []"
  shows "marshalBytes f v w =
     (case Write w p of
        ((n, Some err), w') \<Rightarrow> (Return (0, Some err), w')
      | ((n, None), w') \<Rightarrow>
          if n \<noteq> length p
          then (Return (0, Some (Errorf ''%w:write data len[%d] not equal to data len[%d]''
                                   ErrWriteDataLen)), w')
          else (Return (n, None), w'))"
proof -
  from t p wire_bytes_seq [of "vtype v" order "vdata v" p] have d: "vdata v = VBytes p"
    by blast
  from t show ?thesis
  proof (elim disjE exE conjE)
    fix n e assume "vtype v = T_array n e" "Kind_of e = Uint8"
    with d f a show ?thesis
      by (simp add: marshalBytes_def valueByteArrayToByteSlice_def Len_def
            split: prod.splits option.splits)
  next
    fix e assume "vtype v = T_slice e" "Kind_of e = Uint8"
    with d f a show ?thesis
      by (simp add: marshalBytes_def Bytes_def Len_def
            split: prod.splits option.splits)
  qed
qed

text \<open>
  Claim C8 does not hold of \<open>fieldLen\<close>: for \<open>struct { A []uint32 }\<close> with three
  elements \<open>StructLen\<close> returns the count 3 and a nil error, where \<open>Marshal\<close> of
  the same record returns \<open>ErrInvalidType\<close>: \<open>fieldLen\<close> lacks the element-kind test
  that \<open>newMarshalFunc\<close> and \<open>newUnmarshalFunc\<close> make.
\<close>

theorem C8_StructLen_counts_elements:
  "StructLen (Iface struct_U32s (VStruct [VSeq [VUint 1, VUint 2, VUint 3]])) = Return (3, None) \<and>
   fst (Marshal Map.empty (Iface struct_U32s (VStruct [VSeq [VUint 1, VUint 2, VUint 3]])))
     = Return (Inl (Errorf ''%w: field:%s kind:%s not support'' ErrInvalidType))"
  by code_simp

lemma marshalUint_panics:
  assumes "BitSize opts \<in> {1, 2, 4, 8}" "1 < BitSize opts \<longrightarrow> endian tag \<noteq> None"
    and "fst (marshalUint (Some opts) tag v w) = Panic m"
  shows "m = ''reflect: call of reflect.Value.Uint on non-uint Value''"
proof (cases "Uint_of v")
  case (Return ui)
  with putUint_returns [OF assms(1,2), of ui w] assms(3) show ?thesis
    by (auto simp: marshalUint_def)
next
  case (Panic m')
  then have "m' = ''reflect: call of reflect.Value.Uint on non-uint Value''"
    by (auto simp: Uint_of_def split: if_splits Value.splits)
  with Panic assms(3) show ?thesis
    by (simp add: marshalUint_def)
qed

lemma valueByteArrayToByteSlice_panics:
  "valueByteArrayToByteSlice v = Panic m \<Longrightarrow>
     m \<in> {''reflect: array index out of range'', ''reflect.Value.Addr of unaddressable value'',
          ''reflect: call of reflect.Value.Index on non-array Value''}"
  by (cases "vtype v"; cases "vdata v")
     (auto simp: valueByteArrayToByteSlice_def split: if_splits)

lemma Bytes_panics:
  "Bytes v = Panic m \<Longrightarrow>
     m \<in> {''reflect.Value.Bytes of non-byte slice'',
          ''reflect: call of reflect.Value.Bytes on non-slice Value''}"
  by (cases "vtype v"; cases "vdata v")
     (auto simp: Bytes_def split: if_splits)

lemma Len_panics:
  "Len v = Panic m \<Longrightarrow> m = ''reflect: call of reflect.Value.Len on non-sequence Value''"
  by (cases "vdata v") (auto simp: Len_def split: if_splits)

lemma SetBytes_panics:
  "SetBytes v b = Panic m \<Longrightarrow>
     m \<in> {''reflect: reflect.Value.SetBytes using unaddressable value'',
          ''reflect.Value.SetBytes of non-byte slice'',
          ''reflect: call of reflect.Value.SetBytes on non-slice Value''}"
  by (cases "vtype v") (auto simp: SetBytes_def split: if_splits)

lemma SetUint_panics:
  "SetUint v u = Panic m \<Longrightarrow>
     m \<in> {''reflect: reflect.Value.SetUint using unaddressable value'',
          ''reflect: call of reflect.Value.SetUint on non-uint Value''}"
  by (auto simp: SetUint_def split: if_splits)

lemma marshalBytes_panics:
  assumes "fst (marshalBytes f v w) = Panic m"
  shows "m \<noteq> ''endianness bitSize is too large'' \<and> m \<noteq> ''invalid bitSize''"
proof -
  from assms have
    "valueByteArrayToByteSlice v = Panic m \<or> Bytes v = Panic m \<or> Len v = Panic m"
    by (auto simp: marshalBytes_def split: outcome.splits prod.splits option.splits if_splits)
  then show ?thesis
    by (auto dest!: valueByteArrayToByteSlice_panics Bytes_panics Len_panics)
qed

lemma unmarshalUint_panics:
  assumes "BitSize opts \<in> {1, 2, 4, 8}" "1 < BitSize opts \<longrightarrow> endian tag \<noteq> None"
    and "fst (unmarshalUint (Some opts) tag v r) = Panic m"
  shows "m \<noteq> ''endianness bitSize is too large'' \<and> m \<noteq> ''invalid bitSize''"
proof -
  from getUint_returns [OF assms(1,2), of r] obtain res r' where
    g: "getUint (endian tag) (BitSize opts) r = (Return res, r')"
    by (cases "getUint (endian tag) (BitSize opts) r") auto
  obtain u n err where res: "res = (u, n, err)" by (cases res)
  from assms(3) g res have "SetUint v u = Panic m"
    by (auto simp: unmarshalUint_def split: option.splits outcome.splits)
  then show ?thesis
    by (auto dest!: SetUint_panics)
qed

lemma unmarshalBytes_panics:
  assumes "fst (unmarshalBytes f v r) = Panic m"
  shows "m \<noteq> ''endianness bitSize is too large'' \<and> m \<noteq> ''invalid bitSize''"
proof -
  from assms have
    "valueByteArrayToByteSlice v = Panic m \<or> (\<exists>b. SetBytes v b = Panic m) \<or> Len v = Panic m"
    by (auto simp: unmarshalBytes_def split: outcome.splits prod.splits option.splits if_splits)
  then show ?thesis
    by (auto dest!: valueByteArrayToByteSlice_panics SetBytes_panics Len_panics)
qed

lemma marshalFunc_panics:
  assumes a: "newFieldMarshaler f = Inr fm" and p: "fst (marshalFunc fm v w) = Panic m"
  shows "m \<noteq> ''endianness bitSize is too large'' \<and> m \<noteq> ''invalid bitSize''"
proof -
  from newFieldMarshaler_Inr [OF a] consider
    (uint) opts where "marshalFunc fm = marshalUint (Some opts) (fm_tag fm)"
      "BitSize opts \<in> {1, 2, 4, 8}" "1 < BitSize opts \<longrightarrow> endian (fm_tag fm) \<noteq> None"
    | (bytes) "marshalFunc fm = marshalBytes f"
    by blast
  then show ?thesis
  proof cases
    case uint
    from p uint(1) have "fst (marshalUint (Some opts) (fm_tag fm) v w) = Panic m" by simp
    from marshalUint_panics [OF uint(2,3) this] show ?thesis by simp
  next
    case bytes
    with p have "fst (marshalBytes f v w) = Panic m" by simp
    then show ?thesis by (rule marshalBytes_panics)
  qed
qed

lemma unmarshalFunc_panics:
  assumes a: "newFieldUnmarshaler f = Inr fu" and p: "fst (unmarshalFunc fu v r) = Panic m"
  shows "m \<noteq> ''endianness bitSize is too large'' \<and> m \<noteq> ''invalid bitSize''"
proof -
  from newFieldUnmarshaler_Inr [OF a] consider
    (uint) opts where "unmarshalFunc fu = unmarshalUint (Some opts) (fu_tag fu)"
      "BitSize opts \<in> {1, 2, 4, 8}" "1 < BitSize opts \<longrightarrow> endian (fu_tag fu) \<noteq> None"
    | (bytes) "unmarshalFunc fu = unmarshalBytes f"
    by blast
  then show ?thesis
  proof cases
    case uint
    from p uint(1) have "fst (unmarshalUint (Some opts) (fu_tag fu) v r) = Panic m" by simp
    from unmarshalUint_panics [OF uint(2,3) this] show ?thesis .
  next
    case bytes
    with p have "fst (unmarshalBytes f v r) = Panic m" by simp
    then show ?thesis by (rule unmarshalBytes_panics)
  qed
qed

lemma marshalFunc_shape:
  assumes a: "newFieldMarshaler f = Inr fm"
  shows "(\<exists>opts. marshalFunc fm = marshalUint (Some opts) (fm_tag fm) \<and>
               BitSize opts \<in> {1, 2, 4, 8} \<and>
               (1 < BitSize opts \<longrightarrow> endian (fm_tag fm) \<noteq> None) \<and>
               (\<forall>ui w'. \<exists>res. fst (putUint ui (endian (fm_tag fm)) (BitSize opts) w') = Return res)) \<or>
       marshalFunc fm = marshalBytes f"
proof -
  from newFieldMarshaler_Inr [OF a] consider
    (uint) opts where "marshalFunc fm = marshalUint (Some opts) (fm_tag fm)"
      "BitSize opts \<in> {1, 2, 4, 8}" "1 < BitSize opts \<longrightarrow> endian (fm_tag fm) \<noteq> None"
    | (bytes) "marshalFunc fm = marshalBytes f"
    by blast
  then show ?thesis
  proof cases
    case uint
    from putUint_returns [OF uint(2,3)]
    have "\<forall>ui w'. \<exists>res. fst (putUint ui (endian (fm_tag fm)) (BitSize opts) w') = Return res"
      by blast
    with uint show ?thesis by blast
  next
    case bytes
    then show ?thesis by simp
  qed
qed

lemma unmarshalFunc_shape:
  assumes a: "newFieldUnmarshaler f = Inr fu"
  shows "(\<exists>opts. unmarshalFunc fu = unmarshalUint (Some opts) (fu_tag fu) \<and>
               BitSize opts \<in> {1, 2, 4, 8} \<and>
               (1 < BitSize opts \<longrightarrow> endian (fu_tag fu) \<noteq> None) \<and>
               (\<forall>r'. \<exists>res. fst (getUint (endian (fu_tag fu)) (BitSize opts) r') = Return res)) \<or>
       unmarshalFunc fu = unmarshalBytes f"
proof -
  from newFieldUnmarshaler_Inr [OF a] consider
    (uint) opts where "unmarshalFunc fu = unmarshalUint (Some opts) (fu_tag fu)"
      "BitSize opts \<in> {1, 2, 4, 8}" "1 < BitSize opts \<longrightarrow> endian (fu_tag fu) \<noteq> None"
    | (bytes) "unmarshalFunc fu = unmarshalBytes f"
    by blast
  then show ?thesis
  proof cases
    case uint
    from getUint_returns [OF uint(2,3)]
    have "\<forall>r'. \<exists>res. fst (getUint (endian (fu_tag fu)) (BitSize opts) r') = Return res"
      by blast
    with uint show ?thesis by blast
  next
    case bytes
    then show ?thesis by simp
  qed
qed

text \<open>
  Claim C9. A field operation that \<open>newFieldMarshaler\<close> or \<open>newFieldUnmarshaler\<close>
  builds is either the integer closure, which passes a \<open>bitSize\<close> in
  \<open>{1, 2, 4, 8}\<close> and a non-nil byte order whenever \<open>bitSize > 1\<close>, so that
  \<open>putUint\<close> and \<open>getUint\<close> return on every value and every sink or source, or
  the byte-sequence closure, which calls neither. Running the operation never
  ends in one of the two panics of \<open>putUint\<close> and \<open>getUint\<close>.
\<close>

theorem C9_panic_branches_unreachable:
  "(newFieldMarshaler f = Inr fm \<longrightarrow>
      ((\<exists>opts. marshalFunc fm = marshalUint (Some opts) (fm_tag fm) \<and>
               BitSize opts \<in> {1, 2, 4, 8} \<and>
               (1 < BitSize opts \<longrightarrow> endian (fm_tag fm) \<noteq> None) \<and>
               (\<forall>ui w'. \<exists>res. fst (putUint ui (endian (fm_tag fm)) (BitSize opts) w') = Return res)) \<or>
       marshalFunc fm = marshalBytes f) \<and>
      fst (marshalFunc fm v w) \<noteq> Panic ''endianness bitSize is too large'' \<and>
      fst (marshalFunc fm v w) \<noteq> Panic ''invalid bitSize'') \<and>
   (newFieldUnmarshaler f = Inr fu \<longrightarrow>
      ((\<exists>opts. unmarshalFunc fu = unmarshalUint (Some opts) (fu_tag fu) \<and>
               BitSize opts \<in> {1, 2, 4, 8} \<and>
               (1 < BitSize opts \<longrightarrow> endian (fu_tag fu) \<noteq> None) \<and>
               (\<forall>r'. \<exists>res. fst (getUint (endian (fu_tag fu)) (BitSize opts) r') = Return res)) \<or>
       unmarshalFunc fu = unmarshalBytes f) \<and>
      fst (unmarshalFunc fu v' r) \<noteq> Panic ''endianness bitSize is too large'' \<and>
      fst (unmarshalFunc fu v' r) \<noteq> Panic ''invalid bitSize'')"
proof (intro conjI impI)
  assume a: "newFieldMarshaler f = Inr fm"
  show "(\<exists>opts. marshalFunc fm = marshalUint (Some opts) (fm_tag fm) \<and>
               BitSize opts \<in> {1, 2, 4, 8} \<and>
               (1 < BitSize opts \<longrightarrow> endian (fm_tag fm) \<noteq> None) \<and>
               (\<forall>ui w'. \<exists>res. fst (putUint ui (endian (fm_tag fm)) (BitSize opts) w') = Return res)) \<or>
       marshalFunc fm = marshalBytes f"
    by (rule marshalFunc_shape [OF a])
  show "fst (marshalFunc fm v w) \<noteq> Panic ''endianness bitSize is too large''"
    using marshalFunc_panics [OF a, of v w] by blast
  show "fst (marshalFunc fm v w) \<noteq> Panic ''invalid bitSize''"
    using marshalFunc_panics [OF a, of v w] by blast
next
  assume a: "newFieldUnmarshaler f = Inr fu"
  show "(\<exists>opts. unmarshalFunc fu = unmarshalUint (Some opts) (fu_tag fu) \<and>
               BitSize opts \<in> {1, 2, 4, 8} \<and>
               (1 < BitSize opts \<longrightarrow> endian (fu_tag fu) \<noteq> None) \<and>
               (\<forall>r'. \<exists>res. fst (getUint (endian (fu_tag fu)) (BitSize opts) r') = Return res)) \<or>
       unmarshalFunc fu = unmarshalBytes f"
    by (rule unmarshalFunc_shape [OF a])
  show "fst (unmarshalFunc fu v' r) \<noteq> Panic ''endianness bitSize is too large''"
    using unmarshalFunc_panics [OF a, of v' r] by blast
  show "fst (unmarshalFunc fu v' r) \<noteq> Panic ''invalid bitSize''"
    using unmarshalFunc_panics [OF a, of v' r] by blast
qed

lemma newFieldMarshaler_field_B: "newFieldMarshaler field_B = Inr fm_B"
  by (simp add: newFieldMarshaler_def field_B_def newFieldTag_def Tag_Get_def FieldTagName_def
        newMarshalFunc_def fm_B_def)

lemma newFieldUnmarshaler_field_B: "newFieldUnmarshaler field_B = Inr fu_B"
  by (simp add: newFieldUnmarshaler_def field_B_def newFieldTag_def Tag_Get_def FieldTagName_def
        newUnmarshalFunc_def fu_B_def)

theorem C9_panic_branches_unreachable_witness:
  "newFieldMarshaler field_B = Inr fm_B \<and>
   fst (marshalFunc fm_B \<lparr>vtype = T_uint16, vdata = VUint 0x0203, flagAddr = False\<rparr>
          (bytes_Buffer [])) \<noteq> Panic ''endianness bitSize is too large'' \<and>
   fst (marshalFunc fm_B \<lparr>vtype = T_uint16, vdata = VUint 0x0203, flagAddr = False\<rparr>
          (bytes_Buffer [])) \<noteq> Panic ''invalid bitSize'' \<and>
   newFieldUnmarshaler field_B = Inr fu_B \<and>
   fst (unmarshalFunc fu_B \<lparr>vtype = T_uint16, vdata = VUint 0, flagAddr = True\<rparr>
          (bytes_NewBuffer [3, 2])) \<noteq> Panic ''endianness bitSize is too large'' \<and>
   fst (unmarshalFunc fu_B \<lparr>vtype = T_uint16, vdata = VUint 0, flagAddr = True\<rparr>
          (bytes_NewBuffer [3, 2])) \<noteq> Panic ''invalid bitSize''"
proof (intro conjI)
  note m = C9_panic_branches_unreachable [THEN conjunct1, THEN mp, OF newFieldMarshaler_field_B]
  note u = C9_panic_branches_unreachable [THEN conjunct2, THEN mp, OF newFieldUnmarshaler_field_B]
  show "newFieldMarshaler field_B = Inr fm_B"
    by (rule newFieldMarshaler_field_B)
  show "fst (marshalFunc fm_B \<lparr>vtype = T_uint16, vdata = VUint 0x0203, flagAddr = False\<rparr>
             (bytes_Buffer [])) \<noteq> Panic ''endianness bitSize is too large''"
    by (rule m [THEN conjunct2, THEN conjunct1])
  show "fst (marshalFunc fm_B \<lparr>vtype = T_uint16, vdata = VUint 0x0203, flagAddr = False\<rparr>
             (bytes_Buffer [])) \<noteq> Panic ''invalid bitSize''"
    by (rule m [THEN conjunct2, THEN conjunct2])
  show "newFieldUnmarshaler field_B = Inr fu_B"
    by (rule newFieldUnmarshaler_field_B)
  show "fst (unmarshalFunc fu_B \<lparr>vtype = T_uint16, vdata = VUint 0, flagAddr = True\<rparr>
             (bytes_NewBuffer [3, 2])) \<noteq> Panic ''endianness bitSize is too large''"
    by (rule u [THEN conjunct2, THEN conjunct1])
  show "fst (unmarshalFunc fu_B \<lparr>vtype = T_uint16, vdata = VUint 0, flagAddr = True\<rparr>
             (bytes_NewBuffer [3, 2])) \<noteq> Panic ''invalid bitSize''"
    by (rule u [THEN conjunct2, THEN conjunct2])
qed

subsection \<open>Which annotations are accepted\<close>

lemma newMarshalFunc_uint8_seq:
  "ty = T_uint8 \<or> (\<exists>n e. ty = T_array n e \<and> Kind_of e = Uint8) \<or>
     (\<exists>e. ty = T_slice e \<and> Kind_of e = Uint8) \<Longrightarrow>
   \<exists>mf :: 'w marshalFunc. newMarshalFunc (StructField nm pk ty tg) uo tag = Inr mf"
  by (auto simp: newMarshalFunc_def)

lemma newUnmarshalFunc_uint8_seq:
  "ty = T_uint8 \<or> (\<exists>n e. ty = T_array n e \<and> Kind_of e = Uint8) \<or>
     (\<exists>e. ty = T_slice e \<and> Kind_of e = Uint8) \<Longrightarrow>
   \<exists>uf :: 'r unmarshalFunc. newUnmarshalFunc (StructField nm pk ty tg) uo tag = Inr uf"
  by (auto simp: newUnmarshalFunc_def)

lemma no_order_needed:
  "ty = T_uint8 \<or> (\<exists>n e. ty = T_array n e) \<or> (\<exists>e. ty = T_slice e) \<Longrightarrow>
   Kind_of ty \<notin> {Uint16, Uint32, Uint64}"
  by auto

lemma order_tokens_simps:
  "order_tokens [] = []" "order_tokens ''be'' = [''be'']" "order_tokens ''le'' = [''le'']"
  "\<not> bad_token []" "\<not> bad_token ''be''" "\<not> bad_token ''le''"
  by (simp_all add: order_tokens_def bad_token_def)

lemma tag_accepted:
  assumes tg: "tag = [] \<or> tag = ''be'' \<or> tag = ''le''"
    and k: "k \<notin> {Uint16, Uint32, Uint64}"
  shows "\<exists>t. newFieldTag name tag (parseUintOptions k) = Inr t"
proof -
  from tg k have "\<not> (bad_token tag \<or> 2 \<le> length (order_tokens tag) \<or>
     (k \<in> {Uint16, Uint32, Uint64} \<and> order_tokens tag = []))"
    by (auto simp: order_tokens_simps)
  with newFieldTag_fails_iff [of name tag k] show ?thesis
    by (cases "newFieldTag name tag (parseUintOptions k)") auto
qed

lemma u32_no_order_fails:
  assumes "Tag_Get tg FieldTagName = []"
  shows "\<exists>e. (newFieldMarshaler (StructField nm pk T_uint32 tg) :: error + 'w fieldMarshaler) = Inl e \<and>
             (newFieldUnmarshaler (StructField nm pk T_uint32 tg) :: error + 'r fieldUnmarshaler) = Inl e \<and>
             errors_Is e ErrTagFormat \<and>
             (pk = [] \<longrightarrow> (newMarshaler (T_struct [StructField nm pk T_uint32 tg]) :: (error + 'w marshaler) outcome) = Return (Inl e) \<and>
                (newUnmarshaler (T_struct [StructField nm pk T_uint32 tg]) :: (error + 'r unmarshaler) outcome) = Return (Inl e))"
  using assms
  by (simp add: newFieldMarshaler_def newFieldUnmarshaler_def newFieldTag_def newMarshaler_def
        newUnmarshaler_def)

lemma uint8_seq_accepts:
  assumes tg: "Tag_Get tg FieldTagName = [] \<or> Tag_Get tg FieldTagName = ''be'' \<or>
               Tag_Get tg FieldTagName = ''le''"
    and ty: "ty = T_uint8 \<or> (\<exists>n e. ty = T_array n e \<and> Kind_of e = Uint8) \<or>
             (\<exists>e. ty = T_slice e \<and> Kind_of e = Uint8)"
  shows "(\<exists>fm :: 'w fieldMarshaler. newFieldMarshaler (StructField nm pk ty tg) = Inr fm) \<and>
         (\<exists>fu :: 'r fieldUnmarshaler. newFieldUnmarshaler (StructField nm pk ty tg) = Inr fu)"
proof -
  from ty have "Kind_of ty \<notin> {Uint16, Uint32, Uint64}" by auto
  from tag_accepted [OF tg this, of nm] obtain t where
    t: "newFieldTag nm (Tag_Get tg FieldTagName) (parseUintOptions (Kind_of ty)) = Inr t" by blast
  from newMarshalFunc_uint8_seq [OF ty, of nm pk tg "parseUintOptions (Kind_of ty)" t]
  obtain mf :: "'w marshalFunc" where
    "newMarshalFunc (StructField nm pk ty tg) (parseUintOptions (Kind_of ty)) t = Inr mf"
    by blast
  with t have m: "\<exists>fm :: 'w fieldMarshaler. newFieldMarshaler (StructField nm pk ty tg) = Inr fm"
    by (simp add: newFieldMarshaler_def)
  from newUnmarshalFunc_uint8_seq [OF ty, of nm pk tg "parseUintOptions (Kind_of ty)" t]
  obtain uf :: "'r unmarshalFunc" where
    "newUnmarshalFunc (StructField nm pk ty tg) (parseUintOptions (Kind_of ty)) t = Inr uf"
    by blast
  with t have u: "\<exists>fu :: 'r fieldUnmarshaler. newFieldUnmarshaler (StructField nm pk ty tg) = Inr fu"
    by (simp add: newFieldUnmarshaler_def)
  from m u show ?thesis by (rule conjI)
qed

text \<open>
  Claim C4. Byte-order resolution of a field of kind \<open>k\<close> with annotation
  \<open>tag\<close> fails exactly when the annotation has a non-empty token other than
  \<open>be\<close> and \<open>le\<close>, or has two or more byte-order tokens, or \<open>k\<close> is
  \<open>Uint16\<close>, \<open>Uint32\<close> or \<open>Uint64\<close> and the annotation has no byte-order
  token; every failure wraps \<open>ErrTagFormat\<close>. A \<open>uint32\<close> field with the
  annotation \<open>""\<close> fails field and plan construction with \<open>ErrTagFormat\<close>; a
  \<open>uint8\<close>, byte-array or byte-slice field is accepted with \<open>""\<close>, \<open>be\<close> or
  \<open>le\<close>.
\<close>

theorem C4_byte_order_resolution:
  "((\<exists>err. newFieldTag name tag (parseUintOptions k) = Inl err) \<longleftrightarrow>
      bad_token tag \<or> 2 \<le> length (order_tokens tag) \<or>
      (k \<in> {Uint16, Uint32, Uint64} \<and> order_tokens tag = [])) \<and>
   (newFieldTag name tag uo = Inl err' \<longrightarrow> errors_Is err' ErrTagFormat) \<and>
   (Tag_Get tg FieldTagName = [] \<longrightarrow>
      (\<exists>e. (newFieldMarshaler (StructField nm pk T_uint32 tg) :: error + 'w fieldMarshaler) = Inl e \<and>
           (newFieldUnmarshaler (StructField nm pk T_uint32 tg) :: error + 'r fieldUnmarshaler) = Inl e \<and>
           errors_Is e ErrTagFormat \<and>
           (pk = [] \<longrightarrow>
              (newMarshaler (T_struct [StructField nm pk T_uint32 tg]) :: (error + 'w marshaler) outcome) = Return (Inl e) \<and>
              (newUnmarshaler (T_struct [StructField nm pk T_uint32 tg]) :: (error + 'r unmarshaler) outcome) = Return (Inl e)))) \<and>
   ((Tag_Get tg FieldTagName = [] \<or> Tag_Get tg FieldTagName = ''be'' \<or>
     Tag_Get tg FieldTagName = ''le'') \<and>
    (ty = T_uint8 \<or> (\<exists>n e. ty = T_array n e \<and> Kind_of e = Uint8) \<or>
     (\<exists>e. ty = T_slice e \<and> Kind_of e = Uint8)) \<longrightarrow>
      (\<exists>fm :: 'w fieldMarshaler. newFieldMarshaler (StructField nm pk ty tg) = Inr fm) \<and>
      (\<exists>fu :: 'r fieldUnmarshaler. newFieldUnmarshaler (StructField nm pk ty tg) = Inr fu))"
  using newFieldTag_fails_iff [of name tag k] newFieldTag_err [of name tag uo err']
    u32_no_order_fails [of tg nm pk] uint8_seq_accepts [of tg ty nm pk]
  by blast

theorem C4_byte_order_resolution_witness:
  "2 \<le> length (order_tokens ''be,le'') \<and>
   (\<exists>err. newFieldTag ''A'' ''be,le'' (parseUintOptions Uint8) = Inl err) \<and>
   Tag_Get (Tag field_U32) FieldTagName = [] \<and>
   (\<exists>e. (newFieldMarshaler field_U32 :: error + (byte list) fieldMarshaler) = Inl e \<and>
        errors_Is e ErrTagFormat \<and>
        (newMarshaler (T_struct [field_U32]) :: (error + (byte list) marshaler) outcome)
          = Return (Inl e)) \<and>
   Tag_Get (Tag field_A_le) FieldTagName = ''le'' \<and>
   (\<exists>fm :: (byte list) fieldMarshaler. newFieldMarshaler field_A_le = Inr fm)"
proof -
  have o: "2 \<le> length (order_tokens ''be,le'')"
    by (simp add: order_tokens_def)
  have a: "\<exists>err. newFieldTag ''A'' ''be,le'' (parseUintOptions Uint8) = Inl err"
    by (rule C4_byte_order_resolution [THEN conjunct1, THEN iffD2]) (simp add: o)
  have t: "Tag_Get (Tag field_U32) FieldTagName = []"
    by (simp add: field_U32_def Tag_Get_def)
  have b: "\<exists>e. (newFieldMarshaler field_U32 :: error + (byte list) fieldMarshaler) = Inl e \<and>
        errors_Is e ErrTagFormat \<and>
        (newMarshaler (T_struct [field_U32]) :: (error + (byte list) marshaler) outcome)
          = Return (Inl e)"
  proof -
    have "\<exists>e. (newFieldMarshaler field_U32 :: error + (byte list) fieldMarshaler) = Inl e \<and>
           (newFieldUnmarshaler field_U32 :: error + (byte list) fieldUnmarshaler) = Inl e \<and>
           errors_Is e ErrTagFormat \<and>
           (PkgPath field_U32 = [] \<longrightarrow>
              (newMarshaler (T_struct [field_U32]) :: (error + (byte list) marshaler) outcome)
                = Return (Inl e) \<and>
              (newUnmarshaler (T_struct [field_U32]) :: (error + (byte list) unmarshaler) outcome)
                = Return (Inl e))"
      unfolding field_U32_def StructField.sel
      by (rule C4_byte_order_resolution
            [THEN conjunct2, THEN conjunct2, THEN conjunct1, THEN mp])
         (simp add: Tag_Get_def)
    then show ?thesis by (auto simp: field_U32_def)
  qed
  have t': "Tag_Get (Tag field_A_le) FieldTagName = ''le''"
    by (simp add: field_A_le_def Tag_Get_def FieldTagName_def)
  have c: "\<exists>fm :: (byte list) fieldMarshaler. newFieldMarshaler field_A_le = Inr fm"
    unfolding field_A_le_def
    by (rule C4_byte_order_resolution
          [THEN conjunct2, THEN conjunct2, THEN conjunct2, THEN mp, THEN conjunct1])
       (simp add: Tag_Get_def FieldTagName_def)
  from o a t b t' c show ?thesis by blast
qed

end
